theory Spec2Isabelle
  imports Complex_Main
begin

section \<open>Synthetic cash-drag panel generator: data model\<close>

text \<open>
  The development follows \<^verbatim>\<open>scripts/generate_synthetic_data.py\<close>. numpy arrays are
  lists, a DataFrame is a list of row records, Python integers are \<^typ>\<open>int\<close>, floats
  are \<^typ>\<open>real\<close> (rounding is not modelled), and \<^verbatim>\<open>nan\<close> in a float column is
  \<^const>\<open>None\<close>. Boolean arrays written to a table with \<^verbatim>\<open>.astype(int)\<close> are
  integer columns holding 0 or 1 (\<^const>\<open>of_bool\<close>).
\<close>

datatype error = ValueError | TypeError

text \<open>A raised exception ends the computation: the rest runs on a returned value only.\<close>

definition and_then :: "error + 'a \<Rightarrow> ('a \<Rightarrow> error + 'b) \<Rightarrow> error + 'b" where
  "and_then r f = (case r of Inl e \<Rightarrow> Inl e | Inr x \<Rightarrow> f x)"

text \<open>The dataclass \<^verbatim>\<open>Config\<close> (lines 36-47).\<close>

record config =
  seed :: int
  n_accounts :: int
  n_months :: int
  rollover_start :: int
  rollover_end :: int
  close_rate :: real
  contam_rate :: real
  missing_engagement_rate :: real
  missing_market_rate :: real
  label_noise_rate :: real

text \<open>
  \<^verbatim>\<open>Config(seed=..., n_accounts=..., n_months=...)\<close> as \<^verbatim>\<open>main\<close> calls it: the other
  fields take the defaults of the dataclass.
\<close>

definition Config :: "int \<Rightarrow> int \<Rightarrow> int \<Rightarrow> config" where
  "Config s a m =
     \<lparr>seed = s, n_accounts = a, n_months = m, rollover_start = 1, rollover_end = 12,
      close_rate = 0.001, contam_rate = 0.03, missing_engagement_rate = 0.05,
      missing_market_rate = 0.02, label_noise_rate = 0.01\<rparr>"

text \<open>
  Regions and channels are the keys of the campaign dictionaries; the source spells
  them as the strings "North", "South", "East", "West" and "email", "sms", "inapp".
\<close>

datatype region = North | South | East | West

datatype channel = Email | Sms | Inapp

definition regions :: "region list" where
  "regions = [North, South, East, West]"

definition channels :: "channel list" where
  "channels = [Email, Sms, Inapp]"

section \<open>Campaign scheduler (\<^verbatim>\<open>build_campaigns\<close>, lines 93-134)\<close>

fun region_start :: "region \<Rightarrow> int" where
  "region_start North = 4"
| "region_start South = 7"
| "region_start East = 10"
| "region_start West = 13"

fun channel_offset :: "channel \<Rightarrow> int" where
  "channel_offset Email = 0"
| "channel_offset Sms = 1"
| "channel_offset Inapp = 2"

fun channel_intensity :: "channel \<Rightarrow> int" where
  "channel_intensity Email = 1"
| "channel_intensity Sms = 2"
| "channel_intensity Inapp = 1"

text \<open>One row of the campaigns table.\<close>

record campaign =
  nudge_wave_id :: int
  wave_channel :: channel
  wave_region :: region
  start_month :: int
  end_month :: int
  eligibility_rule :: string
  intensity :: int

text \<open>
  A dictionary \<^verbatim>\<open>dict[str, dict[str, int]]\<close> keyed by channel, then by region. The
  outer keys are the three channels from the start; the inner dictionaries start empty.
\<close>

type_synonym channel_map = "channel \<Rightarrow> region \<rightharpoonup> int"

text \<open>The dictionary \<^verbatim>\<open>maps\<close> returned beside the table: keys "start", "end", "wave".\<close>

record campaigns_map =
  start_map :: channel_map
  end_map :: channel_map
  wave_map :: channel_map

text \<open>The variables the two nested loops update.\<close>

record campaign_loop =
  rows :: "campaign list"
  wave_id :: int
  map_by_channel :: channel_map
  map_end_by_channel :: channel_map
  map_wave_by_channel :: channel_map

definition campaign_loop_init :: campaign_loop where
  "campaign_loop_init =
     \<lparr>rows = [], wave_id = 1, map_by_channel = (\<lambda>_. Map.empty),
      map_end_by_channel = (\<lambda>_. Map.empty), map_wave_by_channel = (\<lambda>_. Map.empty)\<rparr>"

text \<open>The body of the inner loop (lines 107-126).\<close>

definition campaign_body :: "config \<Rightarrow> region \<Rightarrow> channel \<Rightarrow> campaign_loop \<Rightarrow> campaign_loop" where
  "campaign_body cfg r c st =
     (let start = region_start r + channel_offset c;
          end' = min (start + 12) (n_months cfg)
      in \<lparr>rows = rows st @
             [\<lparr>nudge_wave_id = wave_id st, wave_channel = c, wave_region = r,
               start_month = start, end_month = end',
               eligibility_rule = ''months_since_rollover in [1,6] and not invested'',
               intensity = channel_intensity c\<rparr>],
           wave_id = wave_id st + 1,
           map_by_channel = (map_by_channel st)(c := (map_by_channel st c)(r \<mapsto> start)),
           map_end_by_channel = (map_end_by_channel st)(c := (map_end_by_channel st c)(r \<mapsto> end')),
           map_wave_by_channel =
             (map_wave_by_channel st)(c := (map_wave_by_channel st c)(r \<mapsto> wave_id st))\<rparr>)"

definition campaign_loops :: "config \<Rightarrow> campaign_loop" where
  "campaign_loops cfg =
     fold (\<lambda>r st. fold (campaign_body cfg r) channels st) regions campaign_loop_init"

definition build_campaigns :: "config \<Rightarrow> campaign list \<times> campaigns_map" where
  "build_campaigns cfg =
     (let st = campaign_loops cfg
      in (rows st,
          \<lparr>start_map = map_by_channel st, end_map = map_end_by_channel st,
           wave_map = map_wave_by_channel st\<rparr>))"

section \<open>The random generator\<close>

text \<open>
  numpy's \<^verbatim>\<open>Generator\<close> is not code of this repository: it is a parameter of the
  model. A generator implementation gives the state made from a seed and, for each
  sampler the program calls, one draw from a state together with the state after it.
  \<^verbatim>\<open>choice\<close> draws an index into the list of options.
\<close>

record 'g generator =
  default_rng :: "int \<Rightarrow> 'g"
  rng_integers :: "int \<Rightarrow> int \<Rightarrow> 'g \<Rightarrow> int \<times> 'g"
  rng_lognormal :: "real \<Rightarrow> real \<Rightarrow> 'g \<Rightarrow> real \<times> 'g"
  rng_choice :: "nat \<Rightarrow> real list option \<Rightarrow> 'g \<Rightarrow> nat \<times> 'g"
  rng_beta :: "real \<Rightarrow> real \<Rightarrow> 'g \<Rightarrow> real \<times> 'g"
  rng_binomial :: "int \<Rightarrow> real \<Rightarrow> 'g \<Rightarrow> int \<times> 'g"
  rng_normal :: "real \<Rightarrow> real \<Rightarrow> 'g \<Rightarrow> real \<times> 'g"
  rng_random :: "'g \<Rightarrow> real \<times> 'g"

text \<open>A call with \<^verbatim>\<open>size=n\<close> fills an array with \<open>n\<close> successive draws.\<close>

fun draws :: "nat \<Rightarrow> ('g \<Rightarrow> 'a \<times> 'g) \<Rightarrow> 'g \<Rightarrow> 'a list \<times> 'g" where
  "draws 0 f g = ([], g)"
| "draws (Suc n) f g =
     (let (x, g') = f g; (xs, g'') = draws n f g' in (x # xs, g''))"

text \<open>
  What numpy and pandas raise on the paths of this program:
  \<^item> \<^verbatim>\<open>default_rng(seed)\<close> raises ValueError for a negative seed;
  \<^item> a sampler called with a negative \<^verbatim>\<open>size\<close> raises ValueError (negative
    dimensions);
  \<^item> \<^verbatim>\<open>integers(low, high, size)\<close> returns an empty array for size 0 and
    otherwise raises ValueError when the bounds leave int64 or \<open>low \<ge> high\<close>;
  \<^item> \<^verbatim>\<open>np.vectorize(f)(a)\<close> raises ValueError for an array of size 0;
  \<^item> \<^verbatim>\<open>pd.concat([])\<close> raises ValueError.
\<close>

definition np_default_rng :: "'g generator \<Rightarrow> int \<Rightarrow> error + 'g" where
  "np_default_rng G s = (if s < 0 then Inl ValueError else Inr (default_rng G s))"

definition sized :: "int \<Rightarrow> ('g \<Rightarrow> 'a \<times> 'g) \<Rightarrow> 'g \<Rightarrow> error + 'a list \<times> 'g" where
  "sized sz f g = (if sz < 0 then Inl ValueError else Inr (draws (nat sz) f g))"

definition np_integers ::
  "'g generator \<Rightarrow> int \<Rightarrow> int \<Rightarrow> int \<Rightarrow> 'g \<Rightarrow> error + int list \<times> 'g" where
  "np_integers G low high sz g =
     (if sz = 0 then Inr ([], g)
      else if low < - (2 ^ 63) \<or> 2 ^ 63 < high \<or> high \<le> low then Inl ValueError
      else sized sz (rng_integers G low high) g)"

section \<open>Account generator (\<^verbatim>\<open>build_accounts\<close>, lines 50-90)\<close>

record account =
  account_id :: int
  rollover_month :: int
  baseline_balance :: real
  age_band :: string
  tenure_band :: string
  risk_tolerance :: string
  digital_engagement_score :: real
  advisor_flag :: int
  region :: region
  contactable_email :: int
  contactable_sms :: int
  preferred_channel :: channel
  account_fe :: real

definition age_bands :: "string list" where
  "age_bands = [''18-34'', ''35-49'', ''50-64'', ''65+'']"

definition tenure_bands :: "string list" where
  "tenure_bands = [''0-2y'', ''3-5y'', ''6y+'']"

definition risk_tolerances :: "string list" where
  "risk_tolerances = [''low'', ''medium'', ''high'']"

text \<open>
  The first sampler call (line 52) is the one that can fail; the later calls have the
  same size, which is not negative once the first has returned. The generator is
  mutated in place, so the model returns its state after the last draw as well.
\<close>

definition build_accounts ::
  "'g generator \<Rightarrow> 'g \<Rightarrow> config \<Rightarrow> error + account list \<times> 'g" where
  "build_accounts G rng cfg =
     and_then (np_integers G (rollover_start cfg) (rollover_end cfg + 1) (n_accounts cfg) rng)
       (\<lambda>(rollover, rng).
           let n = nat (n_accounts cfg);
               ids = [1..n_accounts cfg];
               (balance, rng) = draws n (rng_lognormal G 10.3 0.8) rng;
               balance = map (\<lambda>x. min (max x 1000) 500000) balance;
               (age, rng) = draws n (rng_choice G 4 (Some [0.20, 0.30, 0.30, 0.20])) rng;
               (tenure, rng) = draws n (rng_choice G 3 (Some [0.35, 0.35, 0.30])) rng;
               (risk, rng) = draws n (rng_choice G 3 (Some [0.40, 0.40, 0.20])) rng;
               (engagement, rng) = draws n (rng_beta G 2 5) rng;
               (advisor, rng) = draws n (rng_binomial G 1 0.25) rng;
               (reg, rng) = draws n (rng_choice G 4 None) rng;
               (c_email, rng) = draws n (rng_binomial G 1 0.85) rng;
               (c_sms, rng) = draws n (rng_binomial G 1 0.55) rng;
               (preferred, rng) = draws n (rng_choice G 3 (Some [0.50, 0.15, 0.35])) rng;
               (fe, rng) = draws n (rng_normal G 0 0.5) rng
           in Inr (map (\<lambda>i.
                     \<lparr>account_id = ids ! i,
                      rollover_month = rollover ! i,
                      baseline_balance = balance ! i,
                      age_band = age_bands ! (age ! i),
                      tenure_band = tenure_bands ! (tenure ! i),
                      risk_tolerance = risk_tolerances ! (risk ! i),
                      digital_engagement_score = engagement ! i,
                      advisor_flag = advisor ! i,
                      region = regions ! (reg ! i),
                      contactable_email = c_email ! i,
                      contactable_sms = c_sms ! i,
                      preferred_channel = channels ! (preferred ! i),
                      account_fe = fe ! i\<rparr>) [0..<n], rng))"

section \<open>Monthly panel engine (\<^verbatim>\<open>generate_panel\<close>, lines 137-301)\<close>

definition logistic :: "real \<Rightarrow> real" where
  "logistic x = 1 / (1 + exp (- x))"

text \<open>One row of the panel table (the columns of \<^verbatim>\<open>month_df\<close>, lines 262-296).\<close>

record panel_row =
  row_account_id :: int
  calendar_month :: int
  months_since_rollover :: int
  active_flag :: int
  eligible_flag :: int
  market_return :: real
  seasonality_index :: real
  nudge_email :: int
  nudge_sms :: int
  nudge_inapp :: int
  exposure_email :: int
  exposure_sms :: int
  exposure_inapp :: int
  email_wave_id :: int
  sms_wave_id :: int
  inapp_wave_id :: int
  treatment_any :: int
  treatment_intensity :: int
  first_exposure_month :: int
  event_time :: "real option"
  treated :: int
  post :: int
  invested_true :: int
  invested_flag :: int
  invested_status :: int
  invest_amount :: real
  account_closed :: int
  missing_engagement :: int
  engagement_obs :: "real option"
  missing_market_return :: int
  market_return_obs :: "real option"

text \<open>
  The state carried from month to month (lines 172-174), read for one account: the
  entries of the arrays \<^verbatim>\<open>invested_status\<close>, \<^verbatim>\<open>account_closed\<close> and
  \<^verbatim>\<open>first_exposure_month\<close> at its index.
\<close>

record acct_state =
  s_invested_status :: bool
  s_account_closed :: bool
  s_first_exposure_month :: int

definition acct_state_init :: acct_state where
  "acct_state_init =
     \<lparr>s_invested_status = False, s_account_closed = False, s_first_exposure_month = - 1\<rparr>"

text \<open>The campaign mapping of one account (lines 153-163).\<close>

record acct_campaign =
  email_start :: int
  sms_start :: int
  inapp_start :: int
  email_end :: int
  sms_end :: int
  inapp_end :: int
  email_wave :: int
  sms_wave :: int
  inapp_wave :: int

text \<open>
  The random numbers of one month for one account: the entries at its index of the
  fifteen arrays drawn in the loop body, in the order of the calls.
\<close>

record month_draw =
  u_email_assign :: real
  u_sms_assign :: real
  u_inapp_assign :: real
  u_email_open :: real
  u_sms_open :: real
  u_inapp_open :: real
  u_email_contam :: real
  u_sms_contam :: real
  u_inapp_contam :: real
  u_invest :: real
  u_noise :: real
  allocation_rate :: real
  u_close :: real
  u_missing_engagement :: real
  u_missing_market :: real

text \<open>
  The numeric expressions of the loop body, each at one index of its arrays:
  \<^verbatim>\<open>p_assign\<close> (line 183), the open probabilities (lines 193-195, \<^verbatim>\<open>np.clip\<close> as
  \<open>min\<close> of \<open>max\<close>), \<^verbatim>\<open>n_exposed\<close> (line 206), \<^verbatim>\<open>treat_effect\<close> (lines 208-213),
  \<^verbatim>\<open>logit\<close> (lines 215-225) and the investment probability \<^verbatim>\<open>p\<close> (lines 227-228).
\<close>

definition p_assign :: "account \<Rightarrow> real" where
  "p_assign a =
     0.05 + 0.10 * digital_engagement_score a + 0.05 * of_bool (baseline_balance a > 50000)"

definition email_open_prob :: "account \<Rightarrow> real" where
  "email_open_prob a = min (max (0.35 + 0.25 * digital_engagement_score a) 0.0) 0.95"

definition sms_open_prob :: "account \<Rightarrow> real" where
  "sms_open_prob a = min (max (0.55 + 0.20 * digital_engagement_score a) 0.0) 0.98"

definition inapp_open_prob :: "account \<Rightarrow> real" where
  "inapp_open_prob a = min (max (0.45 + 0.30 * digital_engagement_score a) 0.0) 0.98"

definition n_exposed :: "bool \<Rightarrow> bool \<Rightarrow> bool \<Rightarrow> int" where
  "n_exposed x_email x_sms x_inapp = of_bool x_email + of_bool x_sms + of_bool x_inapp"

definition treat_effect :: "bool \<Rightarrow> bool \<Rightarrow> bool \<Rightarrow> real" where
  "treat_effect x_email x_sms x_inapp =
     0.35 * of_bool x_email + 0.45 * of_bool x_sms + 0.30 * of_bool x_inapp
     - 0.15 * of_int (max (n_exposed x_email x_sms x_inapp - 1) 0)"

definition logit :: "int \<Rightarrow> real \<Rightarrow> real \<Rightarrow> account \<Rightarrow> real" where
  "logit m mr seas a =
     (let msr = m - rollover_month a;
          active = (msr \<ge> 0);
          msr_for_model = (if active then msr else 0)
      in - 4.2 + 0.35 * ln (baseline_balance a) + 0.60 * digital_engagement_score a
         - 0.10 * of_int msr_for_model + 0.20 * mr + 0.15 * of_int (advisor_flag a)
         + seas + account_fe a)"

definition invest_prob :: "real \<Rightarrow> real \<Rightarrow> bool \<Rightarrow> bool \<Rightarrow> bool \<Rightarrow> real" where
  "invest_prob lg te active is_invested is_closed =
     logistic (lg + te) * of_bool active * of_bool (\<not> is_invested) * of_bool (\<not> is_closed)"

text \<open>
  The loop body (lines 179-260) at one index of its arrays: numpy's operators act
  elementwise, so the body is this function applied to every account. \<open>mr\<close> and
  \<open>seas\<close> are \<^verbatim>\<open>market_return[m - 1]\<close> and \<^verbatim>\<open>seasonality[m - 1]\<close>; \<open>x_email\<close>,
  \<open>x_sms\<close> and \<open>x_inapp\<close> are the exposure arrays after the contamination update.
  The row holds the state after the updates of lines 241-249.
\<close>

definition month_step ::
  "config \<Rightarrow> int \<Rightarrow> real \<Rightarrow> real \<Rightarrow> account \<Rightarrow> acct_campaign \<Rightarrow> month_draw \<Rightarrow> acct_state
     \<Rightarrow> panel_row \<times> acct_state" where
  "month_step cfg m mr seas a k d s =
     (let msr = m - rollover_month a;
          active = (msr \<ge> 0);
          eligible = (active \<and> msr \<ge> 1 \<and> msr \<le> 6 \<and> \<not> s_invested_status s \<and> \<not> s_account_closed s);
          email_active = (m \<ge> email_start k \<and> m \<le> email_end k);
          sms_active = (m \<ge> sms_start k \<and> m \<le> sms_end k);
          inapp_active = (m \<ge> inapp_start k \<and> m \<le> inapp_end k);
          email_assign = (eligible \<and> contactable_email a \<noteq> 0 \<and> email_active
                          \<and> u_email_assign d < p_assign a);
          sms_assign = (eligible \<and> contactable_sms a \<noteq> 0 \<and> sms_active
                        \<and> u_sms_assign d < p_assign a);
          inapp_assign = (eligible \<and> inapp_active \<and> u_inapp_assign d < p_assign a);
          x_email = ((email_assign \<and> u_email_open d < email_open_prob a)
                     \<or> (eligible \<and> \<not> email_assign \<and> u_email_contam d < contam_rate cfg));
          x_sms = ((sms_assign \<and> u_sms_open d < sms_open_prob a)
                   \<or> (eligible \<and> \<not> sms_assign \<and> u_sms_contam d < contam_rate cfg));
          x_inapp = ((inapp_assign \<and> u_inapp_open d < inapp_open_prob a)
                     \<or> (eligible \<and> \<not> inapp_assign \<and> u_inapp_contam d < contam_rate cfg));
          exposed = n_exposed x_email x_sms x_inapp;
          p = invest_prob (logit m mr seas a) (treat_effect x_email x_sms x_inapp) active
                (s_invested_status s) (s_account_closed s);
          invest_true = (u_invest d < p);
          noise_mask = (u_noise d < label_noise_rate cfg);
          invested_flag' = (if noise_mask then \<not> invest_true else invest_true);
          invest_amount' = (if invest_true then baseline_balance a * allocation_rate d else 0.0);
          newly_exposed = (exposed > 0 \<and> s_first_exposure_month s < 0);
          first_exposure_month' = (if newly_exposed then m else s_first_exposure_month s);
          invested_status' = (s_invested_status s \<or> invest_true);
          closed_now = (\<not> s_account_closed s \<and> u_close d < close_rate cfg);
          account_closed' = (s_account_closed s \<or> closed_now);
          missing_engagement' = (u_missing_engagement d < missing_engagement_rate cfg);
          missing_market = (u_missing_market d < missing_market_rate cfg)
      in (\<lparr>row_account_id = account_id a,
           calendar_month = m,
           months_since_rollover = msr,
           active_flag = of_bool active,
           eligible_flag = of_bool eligible,
           market_return = mr,
           seasonality_index = seas,
           nudge_email = of_bool email_assign,
           nudge_sms = of_bool sms_assign,
           nudge_inapp = of_bool inapp_assign,
           exposure_email = of_bool x_email,
           exposure_sms = of_bool x_sms,
           exposure_inapp = of_bool x_inapp,
           email_wave_id = email_wave k,
           sms_wave_id = sms_wave k,
           inapp_wave_id = inapp_wave k,
           treatment_any = of_bool (exposed > 0),
           treatment_intensity = exposed,
           first_exposure_month = first_exposure_month',
           event_time = (if first_exposure_month' \<ge> 0
                         then Some (of_int (m - first_exposure_month')) else None),
           treated = of_bool (first_exposure_month' \<ge> 0),
           post = of_bool (first_exposure_month' \<ge> 0 \<and> m \<ge> first_exposure_month'),
           invested_true = of_bool invest_true,
           invested_flag = of_bool invested_flag',
           invested_status = of_bool invested_status',
           invest_amount = invest_amount',
           account_closed = of_bool account_closed',
           missing_engagement = of_bool missing_engagement',
           engagement_obs = (if missing_engagement' then None
                             else Some (digital_engagement_score a)),
           missing_market_return = of_bool missing_market,
           market_return_obs = (if missing_market then None else Some mr)\<rparr>,
          \<lparr>s_invested_status = invested_status', s_account_closed = account_closed',
           s_first_exposure_month = first_exposure_month'\<rparr>))"

text \<open>
  \<^verbatim>\<open>np.vectorize(d.get)(region)\<close> (lines 153-163): an empty array raises ValueError.
  A region that is missing from the dictionary puts \<^verbatim>\<open>None\<close> into the result, which
  numpy can neither store in an integer array nor compare with the month number; the
  model reports that as TypeError at the lookup.
\<close>

definition vectorize_get :: "(region \<rightharpoonup> int) \<Rightarrow> region list \<Rightarrow> error + int list" where
  "vectorize_get d xs =
     (if xs = [] then Inl ValueError
      else if \<exists>x \<in> set xs. d x = None then Inl TypeError
      else Inr (map (\<lambda>x. the (d x)) xs))"

definition campaign_lookup :: "campaigns_map \<Rightarrow> account list \<Rightarrow> error + acct_campaign list" where
  "campaign_lookup cm accounts =
     (let reg = map region accounts in
      and_then (vectorize_get (start_map cm Email) reg) (\<lambda>e_start.
      and_then (vectorize_get (start_map cm Sms) reg) (\<lambda>s_start.
      and_then (vectorize_get (start_map cm Inapp) reg) (\<lambda>i_start.
      and_then (vectorize_get (end_map cm Email) reg) (\<lambda>e_end.
      and_then (vectorize_get (end_map cm Sms) reg) (\<lambda>s_end.
      and_then (vectorize_get (end_map cm Inapp) reg) (\<lambda>i_end.
      and_then (vectorize_get (wave_map cm Email) reg) (\<lambda>e_wave.
      and_then (vectorize_get (wave_map cm Sms) reg) (\<lambda>s_wave.
      and_then (vectorize_get (wave_map cm Inapp) reg) (\<lambda>i_wave.
      Inr (map (\<lambda>i.
             \<lparr>email_start = e_start ! i, sms_start = s_start ! i, inapp_start = i_start ! i,
              email_end = e_end ! i, sms_end = s_end ! i, inapp_end = i_end ! i,
              email_wave = e_wave ! i, sms_wave = s_wave ! i, inapp_wave = i_wave ! i\<rparr>)
           [0..<length accounts])))))))))))"

text \<open>
  The fifteen sampler calls of one pass of the loop body, each of size \<open>n\<close>, in source
  order: lines 189-191 (assignment), 197-199 (open), 202-204 (contamination), 230
  (investment), 234 (label noise), 237 (allocation), 248 (closure), 252 and 255
  (missingness). No call depends on a value computed in the body.
\<close>

definition month_draws :: "'g generator \<Rightarrow> nat \<Rightarrow> 'g \<Rightarrow> month_draw list \<times> 'g" where
  "month_draws G n rng =
     (let (a_email, rng) = draws n (rng_random G) rng;
          (a_sms, rng) = draws n (rng_random G) rng;
          (a_inapp, rng) = draws n (rng_random G) rng;
          (o_email, rng) = draws n (rng_random G) rng;
          (o_sms, rng) = draws n (rng_random G) rng;
          (o_inapp, rng) = draws n (rng_random G) rng;
          (c_email, rng) = draws n (rng_random G) rng;
          (c_sms, rng) = draws n (rng_random G) rng;
          (c_inapp, rng) = draws n (rng_random G) rng;
          (inv, rng) = draws n (rng_random G) rng;
          (noise, rng) = draws n (rng_random G) rng;
          (alloc, rng) = draws n (rng_beta G 5 2) rng;
          (cl, rng) = draws n (rng_random G) rng;
          (m_eng, rng) = draws n (rng_random G) rng;
          (m_mkt, rng) = draws n (rng_random G) rng
      in (map (\<lambda>i.
            \<lparr>u_email_assign = a_email ! i, u_sms_assign = a_sms ! i, u_inapp_assign = a_inapp ! i,
             u_email_open = o_email ! i, u_sms_open = o_sms ! i, u_inapp_open = o_inapp ! i,
             u_email_contam = c_email ! i, u_sms_contam = c_sms ! i, u_inapp_contam = c_inapp ! i,
             u_invest = inv ! i, u_noise = noise ! i, allocation_rate = alloc ! i,
             u_close = cl ! i, u_missing_engagement = m_eng ! i, u_missing_market = m_mkt ! i\<rparr>)
          [0..<n], rng))"

text \<open>
  The variables of the month loop: the carried state of every account, the generator,
  and the list \<^verbatim>\<open>rows\<close> of the monthly tables appended so far.
\<close>

type_synonym 'g panel_loop = "acct_state list \<times> 'g \<times> panel_row list list"

text \<open>
  One pass of the loop body for month \<open>m\<close>. The indices \<^verbatim>\<open>m - 1\<close> are within the
  arrays \<^verbatim>\<open>market_return\<close> and \<^verbatim>\<open>seasonality\<close>, which have \<^verbatim>\<open>n_months\<close> entries.
\<close>

definition month_iter ::
  "'g generator \<Rightarrow> config \<Rightarrow> account list \<Rightarrow> acct_campaign list \<Rightarrow> real list \<Rightarrow> real list
     \<Rightarrow> int \<Rightarrow> 'g panel_loop \<Rightarrow> 'g panel_loop" where
  "month_iter G cfg accounts lk mkt seas m loop =
     (let (st, rng, dfs) = loop;
          n = length accounts;
          (ds, rng') = month_draws G n rng;
          res = map (\<lambda>i. month_step cfg m (mkt ! nat (m - 1)) (seas ! nat (m - 1))
                           (accounts ! i) (lk ! i) (ds ! i) (st ! i)) [0..<n]
      in (map snd res, rng', dfs @ [map fst res]))"

definition seasonality_template :: "real list" where
  "seasonality_template =
     [0.20, 0.10, 0.05, 0.00, - 0.05, 0.00, 0.05, 0.05, 0.00, 0.05, 0.10, 0.20]"

text \<open>Lines 167-169, for a month count that is not negative.\<close>

definition seasonality :: "config \<Rightarrow> real list" where
  "seasonality cfg =
     map (\<lambda>x. x * 0.10)
       (take (nat (n_months cfg))
          (concat (replicate (nat \<lceil>real_of_int (n_months cfg) / 12\<rceil>) seasonality_template)))"

definition month_loop ::
  "'g generator \<Rightarrow> config \<Rightarrow> account list \<Rightarrow> acct_campaign list \<Rightarrow> real list \<Rightarrow> 'g
     \<Rightarrow> int \<Rightarrow> 'g panel_loop" where
  "month_loop G cfg accounts lk mkt rng hi =
     fold (month_iter G cfg accounts lk mkt (seasonality cfg)) [1..hi]
       (replicate (length accounts) acct_state_init, rng, [])"

definition generate_panel ::
  "'g generator \<Rightarrow> account list \<Rightarrow> campaigns_map \<Rightarrow> config \<Rightarrow> error + panel_row list" where
  "generate_panel G accounts cm cfg =
     and_then (np_default_rng G (seed cfg + 1)) (\<lambda>rng.
     and_then (campaign_lookup cm accounts) (\<lambda>lk.
     and_then (sized (n_months cfg) (rng_normal G 0.004 0.03) rng) (\<lambda>(mkt, rng).
       let (st, rng, dfs) = month_loop G cfg accounts lk mkt rng (n_months cfg)
       in if dfs = [] then Inl ValueError else Inr (concat dfs))))"

section \<open>Panel reducer and \<^verbatim>\<open>main\<close> (lines 304-346)\<close>

record did_row =
  did_account_id :: int
  did_calendar_month :: int
  did_months_since_rollover :: int
  did_treated :: int
  did_post :: int
  did_event_time :: "real option"
  did_treatment_any :: int
  did_treatment_intensity :: int
  did_invested_flag :: int
  did_invest_amount :: real
  did_active_flag :: int
  did_eligible_flag :: int

definition build_did_ready :: "panel_row list \<Rightarrow> did_row list" where
  "build_did_ready panel =
     map (\<lambda>r. \<lparr>did_account_id = row_account_id r,
               did_calendar_month = calendar_month r,
               did_months_since_rollover = months_since_rollover r,
               did_treated = treated r,
               did_post = post r,
               did_event_time = event_time r,
               did_treatment_any = treatment_any r,
               did_treatment_intensity = treatment_intensity r,
               did_invested_flag = invested_flag r,
               did_invest_amount = invest_amount r,
               did_active_flag = active_flag r,
               did_eligible_flag = eligible_flag r\<rparr>) panel"

text \<open>The four tables \<^verbatim>\<open>main\<close> writes, in the order of lines 341-344.\<close>

record tables =
  accounts_csv :: "account list"
  account_month_csv :: "panel_row list"
  nudge_campaigns_csv :: "campaign list"
  did_ready_csv :: "did_row list"

text \<open>
  Lines 330-336 and the four writes: \<^verbatim>\<open>main\<close> from the configuration on. An
  exception in any call ends the program before a table is written. Argument parsing
  and the file system are outside the model.
\<close>

definition run :: "'g generator \<Rightarrow> config \<Rightarrow> error + tables" where
  "run G cfg =
     and_then (np_default_rng G (seed cfg)) (\<lambda>rng.
     and_then (build_accounts G rng cfg) (\<lambda>(accounts, rng).
       let (campaigns, maps) = build_campaigns cfg in
       and_then (generate_panel G accounts maps cfg) (\<lambda>panel.
         Inr \<lparr>accounts_csv = accounts, account_month_csv = panel,
              nudge_campaigns_csv = campaigns, did_ready_csv = build_did_ready panel\<rparr>)))"

definition main :: "'g generator \<Rightarrow> int \<Rightarrow> int \<Rightarrow> int \<Rightarrow> error + tables" where
  "main G seed_arg accounts_arg months_arg = run G (Config seed_arg accounts_arg months_arg)"

section \<open>The panel, account by account\<close>

text \<open>
  Every array of the loop body is indexed by account, and the body reads and writes
  index \<open>i\<close> of each array only. The definitions of this section follow one index
  through the months: the generator state at the start of each pass, the random numbers
  of the account, its carried state and its row. They are used to state and prove the
  properties; \<open>month_loop_unfold\<close> and \<open>panel_at_acct_row\<close> below show that they describe
  the loop of \<^const>\<open>generate_panel\<close>.
\<close>

text \<open>The generator state after \<open>k\<close> passes of the loop body over \<open>n\<close> accounts.\<close>

primrec panel_rng :: "'g generator \<Rightarrow> nat \<Rightarrow> 'g \<Rightarrow> nat \<Rightarrow> 'g" where
  "panel_rng G n g 0 = g"
| "panel_rng G n g (Suc k) = snd (month_draws G n (panel_rng G n g k))"

text \<open>The carried state of one account after \<open>k\<close> months, for a given monthly step.\<close>

primrec acct_sim :: "(nat \<Rightarrow> acct_state \<Rightarrow> panel_row \<times> acct_state) \<Rightarrow> nat \<Rightarrow> acct_state" where
  "acct_sim step 0 = acct_state_init"
| "acct_sim step (Suc k) = snd (step k (acct_sim step k))"

text \<open>The loop body at index \<open>i\<close> in pass \<open>k\<close> (month \<open>k + 1\<close>).\<close>

definition loop_step ::
  "'g generator \<Rightarrow> config \<Rightarrow> account list \<Rightarrow> acct_campaign list \<Rightarrow> real list \<Rightarrow> 'g
     \<Rightarrow> nat \<Rightarrow> nat \<Rightarrow> acct_state \<Rightarrow> panel_row \<times> acct_state" where
  "loop_step G cfg accounts lk mkt rng i k =
     month_step cfg (int k + 1) (mkt ! k) (seasonality cfg ! k) (accounts ! i) (lk ! i)
       (fst (month_draws G (length accounts) (panel_rng G (length accounts) rng k)) ! i)"

text \<open>
  The array \<^verbatim>\<open>market_return\<close> (line 166) and the generator state after drawing it, for
  the generator made from \<^verbatim>\<open>cfg.seed + 1\<close> (line 138).
\<close>

definition market_returns :: "'g generator \<Rightarrow> config \<Rightarrow> real list" where
  "market_returns G cfg =
     fst (draws (nat (n_months cfg)) (rng_normal G 0.004 0.03) (default_rng G (seed cfg + 1)))"

definition loop_rng :: "'g generator \<Rightarrow> config \<Rightarrow> 'g" where
  "loop_rng G cfg =
     snd (draws (nat (n_months cfg)) (rng_normal G 0.004 0.03) (default_rng G (seed cfg + 1)))"

text \<open>The random numbers of month \<open>m\<close> for the account at index \<open>i\<close> of \<open>n\<close>.\<close>

definition panel_draw :: "'g generator \<Rightarrow> config \<Rightarrow> nat \<Rightarrow> int \<Rightarrow> nat \<Rightarrow> month_draw" where
  "panel_draw G cfg n m i =
     fst (month_draws G n (panel_rng G n (loop_rng G cfg) (nat (m - 1)))) ! i"

text \<open>The monthly step, carried state and row of the account at index \<open>i\<close>.\<close>

definition panel_step ::
  "'g generator \<Rightarrow> account list \<Rightarrow> campaigns_map \<Rightarrow> config \<Rightarrow> nat \<Rightarrow> nat
     \<Rightarrow> acct_state \<Rightarrow> panel_row \<times> acct_state" where
  "panel_step G accounts cm cfg i k =
     month_step cfg (int k + 1) (market_returns G cfg ! k) (seasonality cfg ! k) (accounts ! i)
       (projr (campaign_lookup cm accounts) ! i) (panel_draw G cfg (length accounts) (int k + 1) i)"

definition acct_state_at ::
  "'g generator \<Rightarrow> account list \<Rightarrow> campaigns_map \<Rightarrow> config \<Rightarrow> nat \<Rightarrow> nat \<Rightarrow> acct_state" where
  "acct_state_at G accounts cm cfg i k = acct_sim (panel_step G accounts cm cfg i) k"

definition acct_row ::
  "'g generator \<Rightarrow> account list \<Rightarrow> campaigns_map \<Rightarrow> config \<Rightarrow> nat \<Rightarrow> nat \<Rightarrow> panel_row" where
  "acct_row G accounts cm cfg i k =
     fst (panel_step G accounts cm cfg i k (acct_state_at G accounts cm cfg i k))"

text \<open>
  The row of month \<open>m\<close> for the account at index \<open>i\<close> in a panel over \<open>n\<close> accounts:
  the monthly tables are concatenated in month order, each in account order.
\<close>

definition panel_at :: "panel_row list \<Rightarrow> nat \<Rightarrow> int \<Rightarrow> nat \<Rightarrow> panel_row" where
  "panel_at panel n m i = panel ! (nat (m - 1) * n + i)"


text \<open>
  The wave identifier that the loops of \<^const>\<open>build_campaigns\<close> give to a pair: the
  counter starts at 1 and the loops run over the regions, and for each region over the
  channels.
\<close>

fun wave_number :: "region \<Rightarrow> channel \<Rightarrow> int" where
  "wave_number North c = 1 + channel_offset c"
| "wave_number South c = 4 + channel_offset c"
| "wave_number East c = 7 + channel_offset c"
| "wave_number West c = 10 + channel_offset c"

text \<open>Exposure on any channel in a record.\<close>

definition exposed :: "panel_row \<Rightarrow> bool" where
  "exposed r \<longleftrightarrow> exposure_email r = 1 \<or> exposure_sms r = 1 \<or> exposure_inapp r = 1"

section \<open>A worked run\<close>

text \<open>
  A generator, used for the concrete runs below. Its state counts the draws made so
  far. \<^verbatim>\<open>random\<close> returns 1/2 except at three positions of its stream, where it
  returns 0: the email contamination draw and the investment draw of month 2 and the
  label-noise draw of month 3 (for one account and three months the loop starts at
  position 3 and each pass takes fifteen draws). The other samplers return a fixed value
  within their range.
\<close>

definition ex_tape :: "nat \<Rightarrow> real" where
  "ex_tape g = (if g = 24 \<or> g = 27 \<or> g = 43 then 0 else 1 / 2)"

definition ex_gen :: "nat generator" where
  "ex_gen =
     \<lparr>default_rng = (\<lambda>s. 0),
      rng_integers = (\<lambda>low high g. (low, Suc g)),
      rng_lognormal = (\<lambda>mean sigma g. (20000, Suc g)),
      rng_choice = (\<lambda>k p g. (0, Suc g)),
      rng_beta = (\<lambda>a b g. (a / (a + b), Suc g)),
      rng_binomial = (\<lambda>n p g. (if 1 / 2 \<le> p then n else 0, Suc g)),
      rng_normal = (\<lambda>mean sigma g. (mean, Suc g)),
      rng_random = (\<lambda>g. (ex_tape g, Suc g))\<rparr>"

text \<open>
  \<^verbatim>\<open>--seed 42 --accounts 1 --months 3\<close>, the one account the generator above yields,
  the campaign maps, the panel and its three rows, and the four tables.
\<close>

definition ex_cfg :: config where
  "ex_cfg = Config 42 1 3"

definition ex_accounts :: "account list" where
  "ex_accounts =
     [\<lparr>account_id = 1, rollover_month = 1, baseline_balance = 20000, age_band = ''18-34'',
       tenure_band = ''0-2y'', risk_tolerance = ''low'', digital_engagement_score = 2 / 7,
       advisor_flag = 0, region = North, contactable_email = 1, contactable_sms = 1,
       preferred_channel = Email, account_fe = 0\<rparr>]"

definition ex_maps :: campaigns_map where
  "ex_maps = snd (build_campaigns ex_cfg)"

definition ex_panel :: "panel_row list" where
  "ex_panel = projr (generate_panel ex_gen ex_accounts ex_maps ex_cfg)"

definition ex_row_1 :: panel_row where
  "ex_row_1 =
     \<lparr>row_account_id = 1, calendar_month = 1, months_since_rollover = 0,
      active_flag = 1, eligible_flag = 0, market_return = 1 / 250,
      seasonality_index = 1 / 50, nudge_email = 0, nudge_sms = 0,
      nudge_inapp = 0, exposure_email = 0, exposure_sms = 0,
      exposure_inapp = 0, email_wave_id = 1, sms_wave_id = 2,
      inapp_wave_id = 3, treatment_any = 0, treatment_intensity = 0,
      first_exposure_month = - 1, event_time = None, treated = 0,
      post = 0, invested_true = 0, invested_flag = 0, invested_status = 0,
      invest_amount = 0, account_closed = 0, missing_engagement = 0,
      engagement_obs = Some (2 / 7), missing_market_return = 0,
      market_return_obs = Some (1 / 250)\<rparr>"

definition ex_row_2 :: panel_row where
  "ex_row_2 =
     \<lparr>row_account_id = 1, calendar_month = 2, months_since_rollover = 1,
      active_flag = 1, eligible_flag = 1, market_return = 1 / 250,
      seasonality_index = 1 / 100, nudge_email = 0, nudge_sms = 0,
      nudge_inapp = 0, exposure_email = 1, exposure_sms = 0,
      exposure_inapp = 0, email_wave_id = 1, sms_wave_id = 2,
      inapp_wave_id = 3, treatment_any = 1, treatment_intensity = 1,
      first_exposure_month = 2, event_time = Some 0, treated = 1,
      post = 1, invested_true = 1, invested_flag = 1, invested_status = 1,
      invest_amount = 100000 / 7, account_closed = 0,
      missing_engagement = 0, engagement_obs = Some (2 / 7),
      missing_market_return = 0, market_return_obs = Some (1 / 250)\<rparr>"

definition ex_row_3 :: panel_row where
  "ex_row_3 =
     \<lparr>row_account_id = 1, calendar_month = 3, months_since_rollover = 2,
      active_flag = 1, eligible_flag = 0, market_return = 1 / 250,
      seasonality_index = 1 / 200, nudge_email = 0, nudge_sms = 0,
      nudge_inapp = 0, exposure_email = 0, exposure_sms = 0,
      exposure_inapp = 0, email_wave_id = 1, sms_wave_id = 2,
      inapp_wave_id = 3, treatment_any = 0, treatment_intensity = 0,
      first_exposure_month = 2, event_time = Some 1, treated = 1,
      post = 1, invested_true = 0, invested_flag = 1, invested_status = 1,
      invest_amount = 0, account_closed = 0, missing_engagement = 0,
      engagement_obs = Some (2 / 7), missing_market_return = 0,
      market_return_obs = Some (1 / 250)\<rparr>"

definition ex_tables :: tables where
  "ex_tables =
     \<lparr>accounts_csv = ex_accounts, account_month_csv = ex_panel,
      nudge_campaigns_csv = fst (build_campaigns ex_cfg),
      did_ready_csv = build_did_ready ex_panel\<rparr>"

section \<open>Properties of the campaign scheduler\<close>

lemma and_then_simps [simp]:
  "and_then (Inl e) f = Inl e" "and_then (Inr x) f = f x"
  by (simp_all add: and_then_def)

lemma and_then_Inr: "and_then r f = Inr y \<longleftrightarrow> (\<exists>x. r = Inr x \<and> f x = Inr y)"
  by (cases r) simp_all

text \<open>
  The fields of the loop variables after one pass of the inner loop, and the twelve
  passes in order.
\<close>

lemma campaign_body_rows:
  "rows (campaign_body cfg r c st) =
     rows st @
     [\<lparr>nudge_wave_id = wave_id st, wave_channel = c, wave_region = r,
       start_month = region_start r + channel_offset c,
       end_month = min (region_start r + channel_offset c + 12) (n_months cfg),
       eligibility_rule = ''months_since_rollover in [1,6] and not invested'',
       intensity = channel_intensity c\<rparr>]"
  "wave_id (campaign_body cfg r c st) = wave_id st + 1"
  by (simp_all add: campaign_body_def Let_def)

lemma campaign_body_maps:
  "map_by_channel (campaign_body cfg r c st) c' r' =
     (if c' = c \<and> r' = r then Some (region_start r + channel_offset c)
      else map_by_channel st c' r')"
  "map_end_by_channel (campaign_body cfg r c st) c' r' =
     (if c' = c \<and> r' = r then Some (min (region_start r + channel_offset c + 12) (n_months cfg))
      else map_end_by_channel st c' r')"
  "map_wave_by_channel (campaign_body cfg r c st) c' r' =
     (if c' = c \<and> r' = r then Some (wave_id st) else map_wave_by_channel st c' r')"
  by (simp_all add: campaign_body_def Let_def)

lemma campaign_loops_unfold:
  "campaign_loops cfg =
     campaign_body cfg West Inapp (campaign_body cfg West Sms (campaign_body cfg West Email
     (campaign_body cfg East Inapp (campaign_body cfg East Sms (campaign_body cfg East Email
     (campaign_body cfg South Inapp (campaign_body cfg South Sms (campaign_body cfg South Email
     (campaign_body cfg North Inapp (campaign_body cfg North Sms (campaign_body cfg North Email
       campaign_loop_init)))))))))))"
  by (simp add: campaign_loops_def regions_def channels_def)

lemma campaign_rows:
  "rows (campaign_loops cfg) =
     map (\<lambda>(k, r, c).
            \<lparr>nudge_wave_id = k, wave_channel = c, wave_region = r,
             start_month = region_start r + channel_offset c,
             end_month = min (region_start r + channel_offset c + 12) (n_months cfg),
             eligibility_rule = ''months_since_rollover in [1,6] and not invested'',
             intensity = channel_intensity c\<rparr>)
         [(1, North, Email), (2, North, Sms), (3, North, Inapp),
          (4, South, Email), (5, South, Sms), (6, South, Inapp),
          (7, East, Email), (8, East, Sms), (9, East, Inapp),
          (10, West, Email), (11, West, Sms), (12, West, Inapp)]"
  by (simp add: campaign_loops_unfold campaign_body_rows campaign_loop_init_def)

lemma build_campaigns_maps:
  "start_map (snd (build_campaigns cfg)) c r = Some (region_start r + channel_offset c)"
  "end_map (snd (build_campaigns cfg)) c r =
     Some (min (region_start r + channel_offset c + 12) (n_months cfg))"
  "wave_map (snd (build_campaigns cfg)) c r = Some (wave_number r c)"
  by (cases r; cases c;
      simp add: build_campaigns_def Let_def campaign_loops_unfold campaign_body_rows
        campaign_body_maps campaign_loop_init_def)+

text \<open>
  C7. The campaign table has exactly one row for every pair of a region and a channel;
  in every row of the table the start month is the region's base offset plus the
  channel's offset and the end month is the smaller of start + 12 and \<^verbatim>\<open>n_months\<close>, so
  the end month is at most \<^verbatim>\<open>n_months\<close>.
\<close>

theorem build_campaigns_waves:
  "length (filter (\<lambda>w. wave_region w = r \<and> wave_channel w = c) (fst (build_campaigns cfg))) = 1
   \<and> (w \<in> set (fst (build_campaigns cfg)) \<longrightarrow>
        start_month w = region_start (wave_region w) + channel_offset (wave_channel w)
        \<and> end_month w = min (start_month w + 12) (n_months cfg)
        \<and> end_month w \<le> n_months cfg)"
proof
  show "length (filter (\<lambda>w. wave_region w = r \<and> wave_channel w = c) (fst (build_campaigns cfg))) = 1"
    by (cases r; cases c) (simp_all add: build_campaigns_def Let_def campaign_rows)
  show "w \<in> set (fst (build_campaigns cfg)) \<longrightarrow>
        start_month w = region_start (wave_region w) + channel_offset (wave_channel w)
        \<and> end_month w = min (start_month w + 12) (n_months cfg)
        \<and> end_month w \<le> n_months cfg"
    by (auto simp add: build_campaigns_def Let_def campaign_rows)
qed

text \<open>
  The wave of the north region on the sms channel, for the scenario of 100 accounts and
  12 months.
\<close>

theorem build_campaigns_waves_witness:
  "\<lparr>nudge_wave_id = 2, wave_channel = Sms, wave_region = North, start_month = 5, end_month = 12,
     eligibility_rule = ''months_since_rollover in [1,6] and not invested'', intensity = 2\<rparr>
     \<in> set (fst (build_campaigns (Config 42 100 12)))
   \<and> length (filter (\<lambda>w. wave_region w = North \<and> wave_channel w = Sms)
        (fst (build_campaigns (Config 42 100 12)))) = 1
   \<and> (5::int) = region_start North + channel_offset Sms
   \<and> (12::int) = min (5 + 12) (n_months (Config 42 100 12))
   \<and> (12::int) \<le> n_months (Config 42 100 12)"
proof -
  have h: "\<lparr>nudge_wave_id = 2, wave_channel = Sms, wave_region = North, start_month = 5,
     end_month = 12, eligibility_rule = ''months_since_rollover in [1,6] and not invested'',
     intensity = 2\<rparr> \<in> set (fst (build_campaigns (Config 42 100 12)))"
    by (simp add: build_campaigns_def Let_def campaign_rows Config_def)
  from build_campaigns_waves [of North Sms "Config 42 100 12"
      "\<lparr>nudge_wave_id = 2, wave_channel = Sms, wave_region = North, start_month = 5,
        end_month = 12, eligibility_rule = ''months_since_rollover in [1,6] and not invested'',
        intensity = 2\<rparr>"] h
  show ?thesis by simp
qed

section \<open>The month loop, unfolded\<close>

lemma upto_int_Suc: "[1..int (Suc k)] = [1..int k] @ [int k + 1]"
proof -
  have "[1..int k + 1] = [1..int k + 1 - 1] @ [int k + 1]"
    by (rule upto_rec2) simp
  then show ?thesis by (simp add: add.commute)
qed

lemma month_loop_unfold:
  "month_loop G cfg accounts lk mkt rng (int k) =
     (map (\<lambda>i. acct_sim (loop_step G cfg accounts lk mkt rng i) k) [0..<length accounts],
      panel_rng G (length accounts) rng k,
      map (\<lambda>j. map (\<lambda>i. fst (loop_step G cfg accounts lk mkt rng i j
                                 (acct_sim (loop_step G cfg accounts lk mkt rng i) j)))
                 [0..<length accounts]) [0..<k])"
proof (induction k)
  case 0
  show ?case
    by (simp add: month_loop_def map_replicate_const)
next
  case (Suc k)
  have step: "month_loop G cfg accounts lk mkt rng (int (Suc k)) =
        month_iter G cfg accounts lk mkt (seasonality cfg) (int k + 1)
          (month_loop G cfg accounts lk mkt rng (int k))"
    unfolding month_loop_def upto_int_Suc by simp
  show ?case
    unfolding step Suc.IH
    by (simp add: month_iter_def Let_def split_def loop_step_def [symmetric] cong: map_cong)
qed

lemma concat_uniform_length:
  "length (concat (map (\<lambda>j. map (f j) [0..<n]) [0..<k])) = k * n"
  by (induction k) simp_all

lemma concat_uniform_nth:
  "j < k \<Longrightarrow> i < n \<Longrightarrow> concat (map (\<lambda>j. map (f j) [0..<n]) [0..<k]) ! (j * n + i) = f j i"
proof (induction k)
  case 0
  then show ?case by simp
next
  case (Suc k)
  show ?case
  proof (cases "j < k")
    case True
    then have "j * n + i < k * n"
      using Suc.prems(2)
      by (metis add.commute less_le_trans mult_Suc Suc_leI mult_le_mono1 add_less_cancel_left)
    with True Suc show ?thesis
      by (simp add: nth_append concat_uniform_length)
  next
    case False
    with Suc.prems have "j = k" by simp
    with Suc.prems show ?thesis
      by (simp add: nth_append concat_uniform_length)
  qed
qed

lemma panel_step_loop_step:
  "panel_step G accounts cm cfg i =
     loop_step G cfg accounts (projr (campaign_lookup cm accounts)) (market_returns G cfg)
       (loop_rng G cfg) i"
  by (rule ext) (simp add: panel_step_def loop_step_def panel_draw_def)

lemma vectorize_get_Inr: "vectorize_get d xs = Inr ys \<Longrightarrow> xs \<noteq> []"
  by (auto simp add: vectorize_get_def split: if_splits)

lemma campaign_lookup_Inr: "campaign_lookup cm accounts = Inr lk \<Longrightarrow> accounts \<noteq> []"
  by (auto simp add: campaign_lookup_def Let_def and_then_Inr dest!: vectorize_get_Inr)

lemma generate_panel_Inr:
  assumes "generate_panel G accounts cm cfg = Inr panel"
  shows "0 \<le> seed cfg + 1" and "accounts \<noteq> []" and "1 \<le> n_months cfg"
    and "panel = concat (map (\<lambda>j. map (\<lambda>i. acct_row G accounts cm cfg i j)
                                    [0..<length accounts]) [0..<nat (n_months cfg)])"
proof -
  from assms obtain rng lk mkt rng' where
    rng: "np_default_rng G (seed cfg + 1) = Inr rng"
    and lk: "campaign_lookup cm accounts = Inr lk"
    and mkt: "sized (n_months cfg) (rng_normal G 0.004 0.03) rng = Inr (mkt, rng')"
    and loop: "(let (st, g, dfs) = month_loop G cfg accounts lk mkt rng' (n_months cfg)
                in if dfs = [] then Inl ValueError else Inr (concat dfs)) = Inr panel"
    by (auto simp add: generate_panel_def and_then_Inr)
  from rng have rng_eq: "rng = default_rng G (seed cfg + 1)"
    by (auto simp add: np_default_rng_def split: if_splits)
  from rng show "0 \<le> seed cfg + 1"
    by (auto simp add: np_default_rng_def split: if_splits)
  from lk show "accounts \<noteq> []" by (rule campaign_lookup_Inr)
  from mkt have nonneg: "0 \<le> n_months cfg"
    and draws_eq: "draws (nat (n_months cfg)) (rng_normal G 0.004 0.03) rng = (mkt, rng')"
    by (auto simp add: sized_def split: if_splits)
  from draws_eq rng_eq have mkt_eq: "mkt = market_returns G cfg" and rng'_eq: "rng' = loop_rng G cfg"
    by (simp_all add: market_returns_def loop_rng_def)
  from nonneg have N: "n_months cfg = int (nat (n_months cfg))" by simp
  have unfold: "month_loop G cfg accounts lk mkt rng' (n_months cfg) =
     (map (\<lambda>i. acct_state_at G accounts cm cfg i (nat (n_months cfg))) [0..<length accounts],
      panel_rng G (length accounts) rng' (nat (n_months cfg)),
      map (\<lambda>j. map (\<lambda>i. acct_row G accounts cm cfg i j) [0..<length accounts])
        [0..<nat (n_months cfg)])"
    by (subst N, subst month_loop_unfold)
      (simp add: acct_state_at_def acct_row_def panel_step_loop_step lk mkt_eq rng'_eq)
  from loop show "1 \<le> n_months cfg"
    unfolding unfold using nonneg by (auto split: if_splits)
  from loop show "panel = concat (map (\<lambda>j. map (\<lambda>i. acct_row G accounts cm cfg i j)
                                    [0..<length accounts]) [0..<nat (n_months cfg)])"
    unfolding unfold by (auto split: if_splits)
qed

lemma panel_at_acct_row:
  assumes "generate_panel G accounts cm cfg = Inr panel"
    and "i < length accounts" and "1 \<le> m" and "m \<le> n_months cfg"
  shows "panel_at panel (length accounts) m i = acct_row G accounts cm cfg i (nat (m - 1))"
proof -
  from assms(3,4) have "nat (m - 1) < nat (n_months cfg)" by simp
  then show ?thesis
    unfolding panel_at_def generate_panel_Inr(4) [OF assms(1)]
    using assms(2) by (rule concat_uniform_nth)
qed

lemma panel_length:
  assumes "generate_panel G accounts cm cfg = Inr panel"
  shows "length panel = nat (n_months cfg) * length accounts"
  unfolding generate_panel_Inr(4) [OF assms] by (rule concat_uniform_length)

section \<open>One pass of the loop body\<close>

text \<open>
  What one pass of the loop body writes into the row and the carried state of an
  account, column by column. The definition is unfolded without simplifying under the
  draws and probabilities.
\<close>

lemmas step_unfold = month_step_def Let_def fst_conv snd_conv panel_row.simps acct_state.simps

lemma if_zero_real: "(if b then x else 0.0) = (if b then x else (0::real))"
  by simp

lemma of_bool_flip: "of_bool (if n then \<not> t else t) = (if n then 1 - of_bool t else (of_bool t :: int))"
  by simp

lemma n_exposed_pos: "0 < n_exposed a b c \<longleftrightarrow> a \<or> b \<or> c"
  by (simp add: n_exposed_def of_bool_def)

lemma step_calendar:
  "calendar_month (fst (month_step cfg m mr seas a k d s)) = m"
  "row_account_id (fst (month_step cfg m mr seas a k d s)) = account_id a"
  unfolding step_unfold by simp_all

lemma step_eligible:
  "eligible_flag (fst (month_step cfg m mr seas a k d s)) =
     of_bool (1 \<le> m - rollover_month a \<and> m - rollover_month a \<le> 6
              \<and> \<not> s_invested_status s \<and> \<not> s_account_closed s)"
  unfolding step_unfold by (rule arg_cong [where f = of_bool]) linarith

lemma step_exposure:
  "exposure_email (fst (month_step cfg m mr seas a k d s)) = 1
   \<or> exposure_sms (fst (month_step cfg m mr seas a k d s)) = 1
   \<or> exposure_inapp (fst (month_step cfg m mr seas a k d s)) = 1
   \<Longrightarrow> eligible_flag (fst (month_step cfg m mr seas a k d s)) = 1"
  unfolding step_unfold of_bool_eq_1_iff by blast

lemma step_status:
  "invested_status (fst (month_step cfg m mr seas a k d s)) =
     of_bool (s_invested_status (snd (month_step cfg m mr seas a k d s)))"
  "s_invested_status (snd (month_step cfg m mr seas a k d s)) =
     (s_invested_status s \<or> invested_true (fst (month_step cfg m mr seas a k d s)) = 1)"
  unfolding step_unfold of_bool_eq_1_iff by (rule refl)+

lemma step_fem:
  "first_exposure_month (fst (month_step cfg m mr seas a k d s)) =
     s_first_exposure_month (snd (month_step cfg m mr seas a k d s))"
  "s_first_exposure_month (snd (month_step cfg m mr seas a k d s)) =
     (if treatment_any (fst (month_step cfg m mr seas a k d s)) = 1 \<and> s_first_exposure_month s < 0
      then m else s_first_exposure_month s)"
  unfolding step_unfold of_bool_eq_1_iff by (rule refl)+

lemma step_derived:
  "event_time (fst (month_step cfg m mr seas a k d s)) =
     (if 0 \<le> first_exposure_month (fst (month_step cfg m mr seas a k d s))
      then Some (of_int (m - first_exposure_month (fst (month_step cfg m mr seas a k d s))))
      else None)"
  "treated (fst (month_step cfg m mr seas a k d s)) =
     of_bool (0 \<le> first_exposure_month (fst (month_step cfg m mr seas a k d s)))"
  "post (fst (month_step cfg m mr seas a k d s)) =
     of_bool (0 \<le> first_exposure_month (fst (month_step cfg m mr seas a k d s))
              \<and> first_exposure_month (fst (month_step cfg m mr seas a k d s)) \<le> m)"
  unfolding step_unfold by (rule refl)+

lemma step_amount:
  "invest_amount (fst (month_step cfg m mr seas a k d s)) =
     (if invested_true (fst (month_step cfg m mr seas a k d s)) = 1
      then baseline_balance a * allocation_rate d else 0)"
  unfolding step_unfold of_bool_eq_1_iff by (rule if_zero_real)

lemma step_flag:
  "invested_flag (fst (month_step cfg m mr seas a k d s)) =
     (if u_noise d < label_noise_rate cfg
      then 1 - invested_true (fst (month_step cfg m mr seas a k d s))
      else invested_true (fst (month_step cfg m mr seas a k d s)))"
  unfolding step_unfold by (rule of_bool_flip)

lemma step_treatment_any:
  "treatment_any (fst (month_step cfg m mr seas a k d s)) = 1 \<longleftrightarrow>
     exposure_email (fst (month_step cfg m mr seas a k d s)) = 1
     \<or> exposure_sms (fst (month_step cfg m mr seas a k d s)) = 1
     \<or> exposure_inapp (fst (month_step cfg m mr seas a k d s)) = 1"
  unfolding step_unfold of_bool_eq_1_iff by (rule n_exposed_pos)

lemma step_bits:
  "invested_true (fst (month_step cfg m mr seas a k d s)) = 0
   \<or> invested_true (fst (month_step cfg m mr seas a k d s)) = 1"
  "treatment_any (fst (month_step cfg m mr seas a k d s)) = 0
   \<or> treatment_any (fst (month_step cfg m mr seas a k d s)) = 1"
  unfolding step_unfold of_bool_eq_1_iff of_bool_eq_0_iff by blast+

section \<open>Rows and carried state of one account\<close>

text \<open>
  The same facts for the row of pass \<open>k\<close> (month \<open>k + 1\<close>) of the account at index
  \<open>i\<close> and its state before and after the pass.
\<close>

lemma step_active_closed:
  "active_flag (fst (month_step cfg m mr seas a k d s)) = of_bool (rollover_month a \<le> m)"
  "account_closed (fst (month_step cfg m mr seas a k d s)) =
     of_bool (s_account_closed (snd (month_step cfg m mr seas a k d s)))"
  "s_account_closed s \<Longrightarrow> s_account_closed (snd (month_step cfg m mr seas a k d s))"
  unfolding step_unfold by simp_all

lemma state_0 [simp]: "acct_state_at G accounts cm cfg i 0 = acct_state_init"
  by (simp add: acct_state_at_def)

lemma state_Suc:
  "acct_state_at G accounts cm cfg i (Suc k) =
     snd (panel_step G accounts cm cfg i k (acct_state_at G accounts cm cfg i k))"
  by (simp add: acct_state_at_def)

lemma row_calendar:
  "calendar_month (acct_row G accounts cm cfg i k) = int k + 1"
  "row_account_id (acct_row G accounts cm cfg i k) = account_id (accounts ! i)"
  by (simp_all add: acct_row_def panel_step_def step_calendar)

lemma row_eligible:
  "eligible_flag (acct_row G accounts cm cfg i k) =
     of_bool (1 \<le> int k + 1 - rollover_month (accounts ! i)
              \<and> int k + 1 - rollover_month (accounts ! i) \<le> 6
              \<and> \<not> s_invested_status (acct_state_at G accounts cm cfg i k)
              \<and> \<not> s_account_closed (acct_state_at G accounts cm cfg i k))"
  unfolding acct_row_def panel_step_def step_eligible by (rule refl)

lemma row_exposure:
  "exposure_email (acct_row G accounts cm cfg i k) = 1
   \<or> exposure_sms (acct_row G accounts cm cfg i k) = 1
   \<or> exposure_inapp (acct_row G accounts cm cfg i k) = 1
   \<Longrightarrow> eligible_flag (acct_row G accounts cm cfg i k) = 1"
  unfolding acct_row_def panel_step_def by (rule step_exposure)

lemma row_status:
  "invested_status (acct_row G accounts cm cfg i k) =
     of_bool (s_invested_status (acct_state_at G accounts cm cfg i (Suc k)))"
  "s_invested_status (acct_state_at G accounts cm cfg i (Suc k)) =
     (s_invested_status (acct_state_at G accounts cm cfg i k)
      \<or> invested_true (acct_row G accounts cm cfg i k) = 1)"
  unfolding acct_row_def state_Suc panel_step_def by (rule step_status)+

lemma row_closed:
  "account_closed (acct_row G accounts cm cfg i k) =
     of_bool (s_account_closed (acct_state_at G accounts cm cfg i (Suc k)))"
  "s_account_closed (acct_state_at G accounts cm cfg i k)
     \<Longrightarrow> s_account_closed (acct_state_at G accounts cm cfg i (Suc k))"
  unfolding acct_row_def state_Suc panel_step_def by (rule step_active_closed)+

lemma row_fem:
  "first_exposure_month (acct_row G accounts cm cfg i k) =
     s_first_exposure_month (acct_state_at G accounts cm cfg i (Suc k))"
  "s_first_exposure_month (acct_state_at G accounts cm cfg i (Suc k)) =
     (if treatment_any (acct_row G accounts cm cfg i k) = 1
         \<and> s_first_exposure_month (acct_state_at G accounts cm cfg i k) < 0
      then int k + 1 else s_first_exposure_month (acct_state_at G accounts cm cfg i k))"
  unfolding acct_row_def state_Suc panel_step_def by (rule step_fem)+

lemma row_derived:
  "event_time (acct_row G accounts cm cfg i k) =
     (if 0 \<le> first_exposure_month (acct_row G accounts cm cfg i k)
      then Some (of_int (int k + 1 - first_exposure_month (acct_row G accounts cm cfg i k)))
      else None)"
  "treated (acct_row G accounts cm cfg i k) =
     of_bool (0 \<le> first_exposure_month (acct_row G accounts cm cfg i k))"
  "post (acct_row G accounts cm cfg i k) =
     of_bool (0 \<le> first_exposure_month (acct_row G accounts cm cfg i k)
              \<and> first_exposure_month (acct_row G accounts cm cfg i k) \<le> int k + 1)"
  unfolding acct_row_def panel_step_def by (rule step_derived)+

lemma row_amount:
  "invest_amount (acct_row G accounts cm cfg i k) =
     (if invested_true (acct_row G accounts cm cfg i k) = 1
      then baseline_balance (accounts ! i)
           * allocation_rate (panel_draw G cfg (length accounts) (int k + 1) i)
      else 0)"
  unfolding acct_row_def panel_step_def by (rule step_amount)

lemma row_flag:
  "invested_flag (acct_row G accounts cm cfg i k) =
     (if u_noise (panel_draw G cfg (length accounts) (int k + 1) i) < label_noise_rate cfg
      then 1 - invested_true (acct_row G accounts cm cfg i k)
      else invested_true (acct_row G accounts cm cfg i k))"
  unfolding acct_row_def panel_step_def by (rule step_flag)

lemma row_treatment_any:
  "treatment_any (acct_row G accounts cm cfg i k) = 1 \<longleftrightarrow>
     exposure_email (acct_row G accounts cm cfg i k) = 1
     \<or> exposure_sms (acct_row G accounts cm cfg i k) = 1
     \<or> exposure_inapp (acct_row G accounts cm cfg i k) = 1"
  unfolding acct_row_def panel_step_def by (rule step_treatment_any)

lemma row_bits:
  "invested_true (acct_row G accounts cm cfg i k) = 0
   \<or> invested_true (acct_row G accounts cm cfg i k) = 1"
  "treatment_any (acct_row G accounts cm cfg i k) = 0
   \<or> treatment_any (acct_row G accounts cm cfg i k) = 1"
  unfolding acct_row_def panel_step_def by (rule step_bits)+

subsection \<open>Invariants of the carried state\<close>

lemma invested_mono:
  "k \<le> k' \<Longrightarrow> s_invested_status (acct_state_at G accounts cm cfg i k)
     \<Longrightarrow> s_invested_status (acct_state_at G accounts cm cfg i k')"
  by (induction k' rule: dec_induct) (simp_all add: row_status(2))

lemma invested_iff:
  "s_invested_status (acct_state_at G accounts cm cfg i k) \<longleftrightarrow>
     (\<exists>j<k. invested_true (acct_row G accounts cm cfg i j) = 1)"
  by (induction k) (auto simp add: acct_state_init_def row_status(2) less_Suc_eq)

lemma fem_range:
  "s_first_exposure_month (acct_state_at G accounts cm cfg i k) = - 1
   \<or> (1 \<le> s_first_exposure_month (acct_state_at G accounts cm cfg i k)
       \<and> s_first_exposure_month (acct_state_at G accounts cm cfg i k) \<le> int k)"
  by (induction k) (auto simp add: acct_state_init_def row_fem(2))

lemma fem_stable:
  "k \<le> k' \<Longrightarrow> 0 \<le> s_first_exposure_month (acct_state_at G accounts cm cfg i k)
     \<Longrightarrow> s_first_exposure_month (acct_state_at G accounts cm cfg i k') =
         s_first_exposure_month (acct_state_at G accounts cm cfg i k)"
  by (induction k' rule: dec_induct) (simp_all add: row_fem(2))

lemma fem_unset_iff:
  "s_first_exposure_month (acct_state_at G accounts cm cfg i k) < 0 \<longleftrightarrow>
     (\<forall>j<k. treatment_any (acct_row G accounts cm cfg i j) \<noteq> 1)"
  by (induction k) (auto simp add: acct_state_init_def row_fem(2) less_Suc_eq)

lemma fem_first:
  "0 \<le> s_first_exposure_month (acct_state_at G accounts cm cfg i k) \<Longrightarrow>
     \<exists>j<k. s_first_exposure_month (acct_state_at G accounts cm cfg i k) = int j + 1
           \<and> treatment_any (acct_row G accounts cm cfg i j) = 1
           \<and> (\<forall>j'<j. treatment_any (acct_row G accounts cm cfg i j') \<noteq> 1)"
proof (induction k)
  case 0
  then show ?case by (simp add: acct_state_init_def)
next
  case (Suc k)
  show ?case
  proof (cases "0 \<le> s_first_exposure_month (acct_state_at G accounts cm cfg i k)")
    case True
    from Suc.IH [OF True] obtain j where "j < k"
      "s_first_exposure_month (acct_state_at G accounts cm cfg i k) = int j + 1"
      "treatment_any (acct_row G accounts cm cfg i j) = 1"
      "\<forall>j'<j. treatment_any (acct_row G accounts cm cfg i j') \<noteq> 1"
      by blast
    with True show ?thesis
      by (intro exI [of _ j]) (simp add: row_fem(2))
  next
    case False
    with Suc.prems have "treatment_any (acct_row G accounts cm cfg i k) = 1"
      and "s_first_exposure_month (acct_state_at G accounts cm cfg i (Suc k)) = int k + 1"
      by (auto simp add: row_fem(2) split: if_splits)
    moreover from False have "\<forall>j'<k. treatment_any (acct_row G accounts cm cfg i j') \<noteq> 1"
      by (simp add: fem_unset_iff [symmetric])
    ultimately show ?thesis
      by (intro exI [of _ k]) simp
  qed
qed

section \<open>When the program returns\<close>

lemma vectorize_get_total:
  "xs \<noteq> [] \<Longrightarrow> (\<And>x. d x = Some (f x)) \<Longrightarrow> vectorize_get d xs = Inr (map f xs)"
  by (simp add: vectorize_get_def)

lemma campaign_lookup_build_campaigns:
  assumes "accounts \<noteq> []"
  shows "campaign_lookup (snd (build_campaigns cfg)) accounts =
     Inr (map (\<lambda>a.
            \<lparr>email_start = region_start (region a) + channel_offset Email,
             sms_start = region_start (region a) + channel_offset Sms,
             inapp_start = region_start (region a) + channel_offset Inapp,
             email_end = min (region_start (region a) + channel_offset Email + 12) (n_months cfg),
             sms_end = min (region_start (region a) + channel_offset Sms + 12) (n_months cfg),
             inapp_end = min (region_start (region a) + channel_offset Inapp + 12) (n_months cfg),
             email_wave = wave_number (region a) Email,
             sms_wave = wave_number (region a) Sms,
             inapp_wave = wave_number (region a) Inapp\<rparr>) accounts)"
proof -
  have ne: "map region accounts \<noteq> []" using assms by simp
  show ?thesis
    unfolding campaign_lookup_def Let_def
    by (simp only: vectorize_get_total [OF ne build_campaigns_maps(1)]
        vectorize_get_total [OF ne build_campaigns_maps(2)]
        vectorize_get_total [OF ne build_campaigns_maps(3)] and_then_simps sum.inject)
      (rule nth_equalityI, simp_all)
qed

lemma generate_panel_total:
  assumes "0 \<le> seed cfg + 1" and "1 \<le> n_months cfg" and "campaign_lookup cm accounts = Inr lk"
  shows "\<exists>panel. generate_panel G accounts cm cfg = Inr panel"
proof -
  from assms(2) have N: "n_months cfg = int (nat (n_months cfg))" and pos: "0 < nat (n_months cfg)"
    by simp_all
  obtain mkt rng where d: "draws (nat (n_months cfg)) (rng_normal G 0.004 0.03)
      (default_rng G (seed cfg + 1)) = (mkt, rng)"
    by (cases "draws (nat (n_months cfg)) (rng_normal G 0.004 0.03) (default_rng G (seed cfg + 1))")
  have "month_loop G cfg accounts lk mkt rng (n_months cfg) =
     (map (\<lambda>i. acct_sim (loop_step G cfg accounts lk mkt rng i) (nat (n_months cfg)))
        [0..<length accounts],
      panel_rng G (length accounts) rng (nat (n_months cfg)),
      map (\<lambda>j. map (\<lambda>i. fst (loop_step G cfg accounts lk mkt rng i j
                                 (acct_sim (loop_step G cfg accounts lk mkt rng i) j)))
                 [0..<length accounts]) [0..<nat (n_months cfg)])"
    by (subst N) (rule month_loop_unfold)
  with assms pos d show ?thesis
    by (simp add: generate_panel_def np_default_rng_def sized_def)
qed

lemma draws_length [simp]: "length (fst (draws n f g)) = n"
  by (induction n arbitrary: g) (simp_all add: split_def Let_def)

lemma draws_all:
  assumes "\<And>g. P (fst (f g))" and "i < n"
  shows "P (fst (draws n f g) ! i)"
  using assms(2)
proof (induction n arbitrary: g i)
  case 0
  then show ?case by simp
next
  case (Suc n)
  then show ?case
    by (cases i) (simp_all add: split_def Let_def assms(1))
qed

lemma draws_eq_length: "draws n f g = (xs, g') \<Longrightarrow> length xs = n"
  using draws_length [of n f g] by simp

lemma np_integers_Inr:
  "np_integers G low high sz g = Inr (xs, g') \<Longrightarrow> 0 \<le> sz \<and> length xs = nat sz"
  by (auto simp add: np_integers_def sized_def split: if_splits dest: draws_eq_length)

lemma np_integers_error: "np_integers G low high sz g = Inl e \<Longrightarrow> e = ValueError"
  by (auto simp add: np_integers_def sized_def split: if_splits)

lemma build_accounts_Inr:
  assumes "build_accounts G rng cfg = Inr (accts, g)"
  shows "0 \<le> n_accounts cfg" and "length accts = nat (n_accounts cfg)"
    and "i < length accts \<Longrightarrow>
           1000 \<le> baseline_balance (accts ! i) \<and> baseline_balance (accts ! i) \<le> 500000"
proof -
  from assms obtain rollover rng' where
    r: "np_integers G (rollover_start cfg) (rollover_end cfg + 1) (n_accounts cfg) rng
          = Inr (rollover, rng')"
    by (auto simp add: build_accounts_def and_then_Inr)
  from np_integers_Inr [OF r] show "0 \<le> n_accounts cfg" by simp
  from assms r show len: "length accts = nat (n_accounts cfg)"
    by (auto simp add: build_accounts_def Let_def split_def)
  show "1000 \<le> baseline_balance (accts ! i) \<and> baseline_balance (accts ! i) \<le> 500000"
    if "i < length accts"
    using assms r that len
    by (auto simp add: build_accounts_def Let_def split_def)
qed

lemma build_accounts_error: "build_accounts G rng cfg = Inl e \<Longrightarrow> e = ValueError"
  by (cases "np_integers G (rollover_start cfg) (rollover_end cfg + 1) (n_accounts cfg) rng")
    (auto simp add: build_accounts_def Let_def split_def dest: np_integers_error)

lemma build_accounts_total:
  assumes "1 \<le> n_accounts cfg" and "- (2 ^ 63) \<le> rollover_start cfg"
    and "rollover_end cfg + 1 \<le> 2 ^ 63" and "rollover_start cfg \<le> rollover_end cfg"
  shows "\<exists>accts g. build_accounts G rng cfg = Inr (accts, g)"
  using assms by (simp add: build_accounts_def np_integers_def sized_def Let_def split_def)

lemma generate_panel_error:
  "generate_panel G accounts (snd (build_campaigns cfg')) cfg = Inl e \<Longrightarrow> e = ValueError"
proof (cases "accounts = []")
  case True
  assume "generate_panel G accounts (snd (build_campaigns cfg')) cfg = Inl e"
  with True show ?thesis
    by (auto simp add: generate_panel_def np_default_rng_def campaign_lookup_def Let_def
        vectorize_get_def split: if_splits)
next
  case False
  assume "generate_panel G accounts (snd (build_campaigns cfg')) cfg = Inl e"
  then show ?thesis
    by (auto simp add: generate_panel_def np_default_rng_def sized_def split_def Let_def
        campaign_lookup_build_campaigns [OF False] split: if_splits)
qed

lemma run_Inr:
  assumes "run G cfg = Inr t"
  shows "\<exists>g. build_accounts G (default_rng G (seed cfg)) cfg = Inr (accounts_csv t, g)"
    and "generate_panel G (accounts_csv t) (snd (build_campaigns cfg)) cfg
           = Inr (account_month_csv t)"
    and "nudge_campaigns_csv t = fst (build_campaigns cfg)"
    and "did_ready_csv t = build_did_ready (account_month_csv t)"
  using assms
  by (auto simp add: run_def and_then_Inr np_default_rng_def split_def Let_def split: if_splits)

lemma run_error: "run G cfg = Inl e \<Longrightarrow> e = ValueError"
  by (auto simp add: run_def and_then_def np_default_rng_def split_def Let_def
      split: if_splits sum.splits dest: build_accounts_error generate_panel_error)

lemma run_fails:
  assumes "n_accounts cfg \<le> 0 \<or> n_months cfg \<le> 0"
  shows "run G cfg = Inl ValueError"
proof (cases "run G cfg")
  case (Inl e)
  then show ?thesis using run_error by blast
next
  case (Inr t)
  from run_Inr(1) [OF Inr] obtain g where
    "build_accounts G (default_rng G (seed cfg)) cfg = Inr (accounts_csv t, g)" by blast
  from build_accounts_Inr(2) [OF this] generate_panel_Inr(2,3) [OF run_Inr(2) [OF Inr]] assms
  show ?thesis by auto
qed

lemma run_total:
  assumes "0 \<le> seed cfg" and "1 \<le> n_accounts cfg" and "1 \<le> n_months cfg"
    and "- (2 ^ 63) \<le> rollover_start cfg"
    and "rollover_end cfg + 1 \<le> 2 ^ 63" and "rollover_start cfg \<le> rollover_end cfg"
  shows "\<exists>t. run G cfg = Inr t"
proof -
  from build_accounts_total [OF assms(2,4,5,6), where G = G and rng = "default_rng G (seed cfg)"]
  obtain accts g where
    b: "build_accounts G (default_rng G (seed cfg)) cfg = Inr (accts, g)" by blast
  from build_accounts_Inr(2) [OF b] assms(2) have ne: "accts \<noteq> []" by auto
  from assms(1) have "0 \<le> seed cfg + 1" by simp
  from generate_panel_total [OF this assms(3) campaign_lookup_build_campaigns [OF ne]]
  obtain panel where "generate_panel G accts (snd (build_campaigns cfg)) cfg = Inr panel"
    by blast
  with b assms(1) show ?thesis
    by (simp add: run_def np_default_rng_def split_def Let_def)
qed

lemma month_draws_allocation:
  assumes "i < n"
  shows "\<exists>g'. allocation_rate (fst (month_draws G n g) ! i) = fst (draws n (rng_beta G 5 2) g') ! i"
  using assms by (auto simp add: month_draws_def Let_def split_def)

section \<open>The worked run, evaluated\<close>

lemma draws_one: "draws (Suc 0) f g = ([fst (f g)], snd (f g))"
  by (simp add: split_def Let_def)

lemma ex_build_accounts: "build_accounts ex_gen 0 ex_cfg = Inr (ex_accounts, 12)"
  by (simp add: build_accounts_def np_integers_def sized_def ex_gen_def ex_cfg_def Config_def
      ex_accounts_def Let_def split_def draws_one age_bands_def tenure_bands_def
      risk_tolerances_def regions_def channels_def)

lemma ex_generate_panel: "generate_panel ex_gen ex_accounts ex_maps ex_cfg = Inr ex_panel"
proof -
  have "ex_accounts \<noteq> []" by (simp add: ex_accounts_def)
  from campaign_lookup_build_campaigns [OF this]
  have "\<exists>panel. generate_panel ex_gen ex_accounts ex_maps ex_cfg = Inr panel"
    unfolding ex_maps_def by (intro generate_panel_total) (simp_all add: ex_cfg_def Config_def)
  then show ?thesis by (auto simp add: ex_panel_def)
qed

lemma ex_market: "market_returns ex_gen ex_cfg = [0.004, 0.004, 0.004]" "loop_rng ex_gen ex_cfg = 3"
  by (simp_all add: market_returns_def loop_rng_def ex_gen_def ex_cfg_def Config_def
      eval_nat_numeral Let_def split_def)

lemma ceiling_quarter: "\<lceil>(1::real) / 4\<rceil> = 1"
  by (rule ceiling_unique) simp_all

lemma ex_seasonality: "seasonality ex_cfg = [0.02, 0.01, 0.005]"
  by (simp add: seasonality_def ex_cfg_def Config_def seasonality_template_def ceiling_quarter)

lemma ex_lookup:
  "projr (campaign_lookup ex_maps ex_accounts) =
     [\<lparr>email_start = 4, sms_start = 5, inapp_start = 6, email_end = 3, sms_end = 3,
       inapp_end = 3, email_wave = 1, sms_wave = 2, inapp_wave = 3\<rparr>]"
proof -
  have "ex_accounts \<noteq> []" by (simp add: ex_accounts_def)
  from campaign_lookup_build_campaigns [OF this, of ex_cfg] show ?thesis
    by (simp add: ex_maps_def ex_accounts_def ex_cfg_def Config_def)
qed

lemma ex_month_draws:
  "month_draws ex_gen (Suc 0) g =
     ([\<lparr>u_email_assign = ex_tape g, u_sms_assign = ex_tape (g + 1),
        u_inapp_assign = ex_tape (g + 2), u_email_open = ex_tape (g + 3),
        u_sms_open = ex_tape (g + 4), u_inapp_open = ex_tape (g + 5),
        u_email_contam = ex_tape (g + 6), u_sms_contam = ex_tape (g + 7),
        u_inapp_contam = ex_tape (g + 8), u_invest = ex_tape (g + 9),
        u_noise = ex_tape (g + 10), allocation_rate = 5 / 7, u_close = ex_tape (g + 12),
        u_missing_engagement = ex_tape (g + 13), u_missing_market = ex_tape (g + 14)\<rparr>],
      g + 15)"
  by (simp add: month_draws_def draws_one ex_gen_def Let_def split_def eval_nat_numeral)

lemma ex_panel_rng: "panel_rng ex_gen (Suc 0) g k = g + 15 * k"
  by (induction k) (simp_all add: ex_month_draws)

lemma ex_panel_draw:
  "1 \<le> m \<Longrightarrow> panel_draw ex_gen ex_cfg (Suc 0) m 0 =
     fst (month_draws ex_gen (Suc 0) (3 + 15 * nat (m - 1))) ! 0"
  by (simp add: panel_draw_def ex_market ex_panel_rng)

lemma ex_draw_1:
  "panel_draw ex_gen ex_cfg (Suc 0) 1 0 =
     \<lparr>u_email_assign = 1 / 2, u_sms_assign = 1 / 2, u_inapp_assign = 1 / 2,
      u_email_open = 1 / 2, u_sms_open = 1 / 2, u_inapp_open = 1 / 2,
      u_email_contam = 1 / 2, u_sms_contam = 1 / 2, u_inapp_contam = 1 / 2,
      u_invest = 1 / 2, u_noise = 1 / 2, allocation_rate = 5 / 7, u_close = 1 / 2,
      u_missing_engagement = 1 / 2, u_missing_market = 1 / 2\<rparr>"
  by (simp add: ex_panel_draw ex_month_draws ex_tape_def)

lemma ex_draw_2:
  "panel_draw ex_gen ex_cfg (Suc 0) 2 0 =
     \<lparr>u_email_assign = 1 / 2, u_sms_assign = 1 / 2, u_inapp_assign = 1 / 2,
      u_email_open = 1 / 2, u_sms_open = 1 / 2, u_inapp_open = 1 / 2,
      u_email_contam = 0, u_sms_contam = 1 / 2, u_inapp_contam = 1 / 2,
      u_invest = 0, u_noise = 1 / 2, allocation_rate = 5 / 7, u_close = 1 / 2,
      u_missing_engagement = 1 / 2, u_missing_market = 1 / 2\<rparr>"
  by (simp add: ex_panel_draw ex_month_draws ex_tape_def)

lemma ex_draw_3:
  "panel_draw ex_gen ex_cfg (Suc 0) 3 0 =
     \<lparr>u_email_assign = 1 / 2, u_sms_assign = 1 / 2, u_inapp_assign = 1 / 2,
      u_email_open = 1 / 2, u_sms_open = 1 / 2, u_inapp_open = 1 / 2,
      u_email_contam = 1 / 2, u_sms_contam = 1 / 2, u_inapp_contam = 1 / 2,
      u_invest = 1 / 2, u_noise = 0, allocation_rate = 5 / 7, u_close = 1 / 2,
      u_missing_engagement = 1 / 2, u_missing_market = 1 / 2\<rparr>"
  by (simp add: ex_panel_draw ex_month_draws ex_tape_def)

text \<open>
  In month 1 the account is active and not invested, so its investment probability is
  positive; the draw 1/2 is not below it because the logit is negative.
\<close>

lemma ln_20000: "ln (20000::real) \<le> 11"
proof -
  have "1 + 1 + 1\<^sup>2 / 2 \<le> exp (1::real)"
    by (rule exp_lower_Taylor_quadratic) simp
  then have e: "5 / 2 \<le> exp (1::real)" by simp
  have "(20000::real) \<le> (5 / 2) ^ 11" by (simp add: power_divide)
  also have "\<dots> \<le> exp 1 ^ 11" using e by (intro power_mono) simp_all
  also have "\<dots> = exp (11::real)" using exp_of_nat_mult [of 11 "1::real"] by simp
  finally have "ln (20000::real) \<le> ln (exp 11)" by (intro ln_mono) simp_all
  then show ?thesis by simp
qed

lemma logistic_pos: "0 < logistic x"
  by (simp add: logistic_def add_pos_pos)

lemma logistic_le_half: "x \<le> 0 \<Longrightarrow> logistic x \<le> 1 / 2"
proof -
  assume "x \<le> 0"
  then have "1 \<le> exp (- x)" by simp
  then have "1 / (1 + exp (- x)) \<le> 1 / 2"
    by (intro frac_le) simp_all
  then show ?thesis by (simp add: logistic_def)
qed

lemma invest_prob_simps:
  "invest_prob lg te False i c = 0"
  "invest_prob lg te a True c = 0"
  "invest_prob lg te a i True = 0"
  "invest_prob lg te True False False = logistic (lg + te)"
  by (simp_all add: invest_prob_def)

lemma ex_logit_1:
  "logit 1 (1 / 250) (1 / 50)
     \<lparr>account_id = 1, rollover_month = 1, baseline_balance = 20000,
      age_band = ''18-34'', tenure_band = ''0-2y'',
      risk_tolerance = ''low'', digital_engagement_score = 2 / 7,
      advisor_flag = 0, region = North, contactable_email = 1,
      contactable_sms = 1, preferred_channel = Email,
      account_fe = 0\<rparr> \<le> 0"
  using ln_20000 by (simp add: logit_def)

lemma ex_no_invest_1:
  "\<not> 1 < logistic (logit 1 (1 / 250) (1 / 50)
     \<lparr>account_id = 1, rollover_month = 1, baseline_balance = 20000,
      age_band = ''18-34'', tenure_band = ''0-2y'',
      risk_tolerance = ''low'', digital_engagement_score = 2 / 7,
      advisor_flag = 0, region = North, contactable_email = 1,
      contactable_sms = 1, preferred_channel = Email,
      account_fe = 0\<rparr>) * 2"
  using logistic_le_half [OF ex_logit_1] by simp

lemmas ex_step_defs =
  month_step_def Let_def acct_state_init_def p_assign_def email_open_prob_def
  sms_open_prob_def inapp_open_prob_def ex_cfg_def Config_def n_exposed_def treat_effect_def
  invest_prob_simps logistic_pos ex_no_invest_1

lemma ex_length: "length ex_accounts = Suc 0"
  by (simp add: ex_accounts_def)

lemma ex_panel_step:
  "panel_step ex_gen ex_accounts ex_maps ex_cfg 0 k =
     month_step ex_cfg (int k + 1) (1 / 250) ([1 / 50, 1 / 100, 1 / 200] ! k) (ex_accounts ! 0)
       \<lparr>email_start = 4, sms_start = 5, inapp_start = 6, email_end = 3, sms_end = 3,
        inapp_end = 3, email_wave = 1, sms_wave = 2, inapp_wave = 3\<rparr>
       (panel_draw ex_gen ex_cfg (Suc 0) (int k + 1) 0)" if "k < 3"
  using that
  by (cases k) (auto simp add: panel_step_def ex_market ex_seasonality ex_lookup ex_length
      less_Suc_eq numeral_3_eq_3)

lemma ex_step_1:
  "panel_step ex_gen ex_accounts ex_maps ex_cfg 0 0 acct_state_init = (ex_row_1, acct_state_init)"
  by (subst ex_panel_step; simp add: ex_accounts_def ex_draw_1 ex_row_1_def)
    (simp add: ex_step_defs)

lemma ex_step_2:
  "panel_step ex_gen ex_accounts ex_maps ex_cfg 0 1 acct_state_init =
     (ex_row_2, \<lparr>s_invested_status = True, s_account_closed = False, s_first_exposure_month = 2\<rparr>)"
  by (subst ex_panel_step; simp add: ex_accounts_def ex_draw_2 ex_row_2_def)
    (simp add: ex_step_defs)

lemma ex_step_3:
  "panel_step ex_gen ex_accounts ex_maps ex_cfg 0 2
      \<lparr>s_invested_status = True, s_account_closed = False, s_first_exposure_month = 2\<rparr> =
     (ex_row_3, \<lparr>s_invested_status = True, s_account_closed = False, s_first_exposure_month = 2\<rparr>)"
  by (subst ex_panel_step; simp add: ex_accounts_def ex_draw_3 ex_row_3_def)
    (simp add: ex_step_defs)

lemma ex_states:
  "acct_state_at ex_gen ex_accounts ex_maps ex_cfg 0 (Suc 0) = acct_state_init"
  "acct_state_at ex_gen ex_accounts ex_maps ex_cfg 0 (Suc (Suc 0)) =
     \<lparr>s_invested_status = True, s_account_closed = False, s_first_exposure_month = 2\<rparr>"
proof -
  show 1: "acct_state_at ex_gen ex_accounts ex_maps ex_cfg 0 (Suc 0) = acct_state_init"
    by (simp add: state_Suc ex_step_1)
  have "panel_step ex_gen ex_accounts ex_maps ex_cfg 0 (Suc 0) acct_state_init =
     (ex_row_2, \<lparr>s_invested_status = True, s_account_closed = False, s_first_exposure_month = 2\<rparr>)"
    using ex_step_2 by simp
  then show "acct_state_at ex_gen ex_accounts ex_maps ex_cfg 0 (Suc (Suc 0)) =
     \<lparr>s_invested_status = True, s_account_closed = False, s_first_exposure_month = 2\<rparr>"
    by (simp add: state_Suc [of _ _ _ _ _ "Suc 0"] 1)
qed

lemma ex_rows:
  "acct_row ex_gen ex_accounts ex_maps ex_cfg 0 0 = ex_row_1"
  "acct_row ex_gen ex_accounts ex_maps ex_cfg 0 (Suc 0) = ex_row_2"
  "acct_row ex_gen ex_accounts ex_maps ex_cfg 0 (Suc (Suc 0)) = ex_row_3"
proof -
  show "acct_row ex_gen ex_accounts ex_maps ex_cfg 0 0 = ex_row_1"
    by (simp add: acct_row_def ex_step_1)
  show "acct_row ex_gen ex_accounts ex_maps ex_cfg 0 (Suc 0) = ex_row_2"
    using ex_step_2 by (simp add: acct_row_def ex_states)
  show "acct_row ex_gen ex_accounts ex_maps ex_cfg 0 (Suc (Suc 0)) = ex_row_3"
    using ex_step_3 by (simp add: acct_row_def ex_states numeral_2_eq_2)
qed

lemma ex_panel_rows: "ex_panel = [ex_row_1, ex_row_2, ex_row_3]"
proof -
  have n: "nat (n_months ex_cfg) = Suc (Suc (Suc 0))"
    by (simp add: ex_cfg_def Config_def numeral_3_eq_3)
  show ?thesis
    unfolding generate_panel_Inr(4) [OF ex_generate_panel] n ex_length
    by (simp add: ex_rows)
qed

lemma ex_run: "run ex_gen ex_cfg = Inr ex_tables"
proof -
  have "seed ex_cfg = 42" by (simp add: ex_cfg_def Config_def)
  moreover have "default_rng ex_gen 42 = 0" by (simp add: ex_gen_def)
  ultimately show ?thesis
    using ex_generate_panel
    by (simp add: run_def np_default_rng_def ex_build_accounts split_def Let_def ex_maps_def
        ex_tables_def)
qed

lemma ex_main: "main ex_gen 42 1 3 = Inr ex_tables"
  using ex_run by (simp add: main_def ex_cfg_def)

lemma ex_at:
  "panel_at ex_panel (length ex_accounts) 1 0 = ex_row_1"
  "panel_at ex_panel (length ex_accounts) 2 0 = ex_row_2"
  "panel_at ex_panel (length ex_accounts) 3 0 = ex_row_3"
  by (simp_all add: panel_at_def ex_panel_rows ex_length)

lemma ex_n_months: "n_months ex_cfg = 3"
  by (simp add: ex_cfg_def Config_def)

section \<open>Properties of the panel and of the whole run\<close>

lemma prev_row:
  assumes "generate_panel G accounts cm cfg = Inr panel"
    and "i < length accounts" and "1 < m" and "m \<le> n_months cfg"
  shows "panel_at panel (length accounts) (m - 1) i = acct_row G accounts cm cfg i (nat (m - 1) - 1)"
proof -
  have "panel_at panel (length accounts) (m - 1) i = acct_row G accounts cm cfg i (nat (m - 1 - 1))"
    using assms by (intro panel_at_acct_row) simp_all
  moreover have "nat (m - 1 - 1) = nat (m - 1) - 1" by simp
  ultimately show ?thesis by simp
qed

lemma panel_at_identity:
  assumes "generate_panel G accounts cm cfg = Inr panel"
    and "i < length accounts" and "1 \<le> m" and "m \<le> n_months cfg"
  shows "calendar_month (panel_at panel (length accounts) m i) = m"
    and "row_account_id (panel_at panel (length accounts) m i) = account_id (accounts ! i)"
  using assms by (simp_all add: panel_at_acct_row row_calendar)

text \<open>Every row of the panel is the row of some month and some account.\<close>

lemma panel_row_cases:
  assumes "generate_panel G accounts cm cfg = Inr panel" and "r \<in> set panel"
  shows "\<exists>m i. 1 \<le> m \<and> m \<le> n_months cfg \<and> i < length accounts
               \<and> r = panel_at panel (length accounts) m i"
proof -
  let ?n = "length accounts"
  from assms(2) obtain k where k: "k < length panel" "r = panel ! k"
    by (auto simp add: in_set_conv_nth)
  from generate_panel_Inr(2) [OF assms(1)] have n: "0 < ?n" by simp
  from k(1) have "k < nat (n_months cfg) * ?n"
    by (simp add: panel_length [OF assms(1)])
  then have "k div ?n < nat (n_months cfg)"
    using n by (simp add: less_mult_imp_div_less)
  then have "1 \<le> int (k div ?n) + 1" "int (k div ?n) + 1 \<le> n_months cfg" by simp_all
  moreover have "k mod ?n < ?n" using n by simp
  moreover have "r = panel_at panel ?n (int (k div ?n) + 1) (k mod ?n)"
    by (simp add: panel_at_def k(2))
  ultimately show ?thesis by blast
qed

lemma panel_exposed:
  assumes "generate_panel G accounts cm cfg = Inr panel"
    and "i < length accounts" and "1 \<le> j" and "j \<le> n_months cfg"
  shows "treatment_any (panel_at panel (length accounts) j i) = 1
           \<longleftrightarrow> exposed (panel_at panel (length accounts) j i)"
    and "treatment_any (panel_at panel (length accounts) j i) = 0
           \<longleftrightarrow> \<not> exposed (panel_at panel (length accounts) j i)"
proof -
  have row: "panel_at panel (length accounts) j i = acct_row G accounts cm cfg i (nat (j - 1))"
    using assms by (rule panel_at_acct_row)
  show 1: "treatment_any (panel_at panel (length accounts) j i) = 1
           \<longleftrightarrow> exposed (panel_at panel (length accounts) j i)"
    unfolding row exposed_def by (rule row_treatment_any)
  show "treatment_any (panel_at panel (length accounts) j i) = 0
           \<longleftrightarrow> \<not> exposed (panel_at panel (length accounts) j i)"
    using 1 row_bits(2) [of G accounts cm cfg i "nat (j - 1)"] unfolding row by auto
qed

text \<open>
  The first exposure month and the event time, read off the column \<^verbatim>\<open>treatment_any\<close>.
\<close>

lemma event_time_by_treatment:
  assumes "generate_panel G accounts cm cfg = Inr panel"
    and "i < length accounts" and "1 \<le> m" and "m \<le> n_months cfg"
  shows "if \<exists>j \<in> {1..m}. treatment_any (panel_at panel (length accounts) j i) = 1
         then 1 \<le> first_exposure_month (panel_at panel (length accounts) m i)
              \<and> first_exposure_month (panel_at panel (length accounts) m i) \<le> m
              \<and> treatment_any (panel_at panel (length accounts)
                   (first_exposure_month (panel_at panel (length accounts) m i)) i) = 1
              \<and> (\<forall>j \<in> {1..<first_exposure_month (panel_at panel (length accounts) m i)}.
                    treatment_any (panel_at panel (length accounts) j i) = 0)
              \<and> event_time (panel_at panel (length accounts) m i) =
                  Some (of_int (m - first_exposure_month (panel_at panel (length accounts) m i)))
         else first_exposure_month (panel_at panel (length accounts) m i) = - 1
              \<and> event_time (panel_at panel (length accounts) m i) = None"
proof -
  define k where "k = nat (m - 1)"
  define S where "S = acct_state_at G accounts cm cfg i"
  define R where "R = acct_row G accounts cm cfg i"
  have km: "int k + 1 = m" using assms(3) by (simp add: k_def)
  have rows: "panel_at panel (length accounts) j i = R (nat (j - 1))" if "1 \<le> j" "j \<le> m" for j
    unfolding R_def using assms(1,2) that assms(4) by (intro panel_at_acct_row) simp_all
  have row_m: "panel_at panel (length accounts) m i = R k"
    using rows [of m] assms(3) by (simp add: k_def)
  have fem: "first_exposure_month (R k) = s_first_exposure_month (S (Suc k))"
    by (simp add: R_def S_def row_fem(1))
  have ev: "event_time (R k) =
      (if 0 \<le> first_exposure_month (R k) then Some (of_int (m - first_exposure_month (R k))) else None)"
    by (simp add: R_def row_derived(1) km)
  have ex_iff: "(\<exists>j \<in> {1..m}. treatment_any (panel_at panel (length accounts) j i) = 1)
      \<longleftrightarrow> (\<exists>j<Suc k. treatment_any (R j) = 1)"
  proof
    assume "\<exists>j \<in> {1..m}. treatment_any (panel_at panel (length accounts) j i) = 1"
    then obtain j where j: "1 \<le> j" "j \<le> m" "treatment_any (R (nat (j - 1))) = 1"
      by (auto simp add: rows)
    then have "nat (j - 1) < Suc k" by (simp add: k_def)
    with j(3) show "\<exists>j<Suc k. treatment_any (R j) = 1" by blast
  next
    assume "\<exists>j<Suc k. treatment_any (R j) = 1"
    then obtain j where j: "j < Suc k" "treatment_any (R j) = 1" by blast
    then have "1 \<le> int j + 1" "int j + 1 \<le> m" using km by simp_all
    moreover from this have "treatment_any (panel_at panel (length accounts) (int j + 1) i) = 1"
      using j(2) by (simp add: rows)
    ultimately show "\<exists>j \<in> {1..m}. treatment_any (panel_at panel (length accounts) j i) = 1"
      by auto
  qed
  show ?thesis
  proof (cases "\<exists>j<Suc k. treatment_any (R j) = 1")
    case True
    then have set: "0 \<le> s_first_exposure_month (S (Suc k))"
      using fem_unset_iff [of G accounts cm cfg i "Suc k"] by (auto simp add: S_def R_def)
    from fem_first [OF set [unfolded S_def]] obtain j where j: "j < Suc k"
      "s_first_exposure_month (S (Suc k)) = int j + 1" "treatment_any (R j) = 1"
      "\<forall>j'<j. treatment_any (R j') \<noteq> 1"
      by (auto simp add: S_def R_def)
    have bounds: "1 \<le> int j + 1" "int j + 1 \<le> m" using j(1) km by simp_all
    have first: "treatment_any (panel_at panel (length accounts) (int j + 1) i) = 1"
      using bounds j(3) by (simp add: rows)
    have before: "treatment_any (panel_at panel (length accounts) j' i) = 0"
      if "j' \<in> {1..<int j + 1}" for j'
    proof -
      from that bounds have "1 \<le> j'" "j' \<le> m" "nat (j' - 1) < j" by auto
      with j(4) have "treatment_any (R (nat (j' - 1))) \<noteq> 1"
        and "panel_at panel (length accounts) j' i = R (nat (j' - 1))"
        by (simp_all add: rows)
      then show ?thesis
        using row_bits(2) [of G accounts cm cfg i "nat (j' - 1)"] by (auto simp add: R_def)
    qed
    from True ex_iff bounds first before show ?thesis
      by (simp add: row_m fem ev j(2))
  next
    case False
    then have "s_first_exposure_month (S (Suc k)) < 0"
      using fem_unset_iff [of G accounts cm cfg i "Suc k"] by (auto simp add: S_def R_def)
    then have "s_first_exposure_month (S (Suc k)) = - 1"
      using fem_range [of G accounts cm cfg i "Suc k"] by (auto simp add: S_def)
    with False ex_iff show ?thesis
      by (simp add: row_m fem ev)
  qed
qed

lemma first_exposure_by_treatment:
  assumes "generate_panel G accounts cm cfg = Inr panel"
    and "i < length accounts" and "1 \<le> m" and "m \<le> m'" and "m' \<le> n_months cfg"
  shows "first_exposure_month (panel_at panel (length accounts) m i) =
           (if treatment_any (panel_at panel (length accounts) m i) = 1
               \<and> (1 < m \<longrightarrow> first_exposure_month (panel_at panel (length accounts) (m - 1) i) < 0)
            then m
            else if 1 < m then first_exposure_month (panel_at panel (length accounts) (m - 1) i)
            else - 1)
         \<and> (0 \<le> first_exposure_month (panel_at panel (length accounts) m i) \<longrightarrow>
              first_exposure_month (panel_at panel (length accounts) m' i) =
              first_exposure_month (panel_at panel (length accounts) m i))"
proof -
  define k where "k = nat (m - 1)"
  define S where "S = acct_state_at G accounts cm cfg i"
  have km: "int k + 1 = m" using assms(3) by (simp add: k_def)
  have row_m: "panel_at panel (length accounts) m i = acct_row G accounts cm cfg i k"
    unfolding k_def using assms by (intro panel_at_acct_row) simp_all
  have row_m': "panel_at panel (length accounts) m' i = acct_row G accounts cm cfg i (nat (m' - 1))"
    using assms by (intro panel_at_acct_row) simp_all
  have fem: "first_exposure_month (acct_row G accounts cm cfg i j) = s_first_exposure_month (S (Suc j))"
    for j by (simp add: S_def row_fem(1))
  have upd: "s_first_exposure_month (S (Suc k)) =
      (if treatment_any (acct_row G accounts cm cfg i k) = 1 \<and> s_first_exposure_month (S k) < 0
       then m else s_first_exposure_month (S k))"
    using row_fem(2) [of G accounts cm cfg i k] by (simp only: km S_def)
  have prev: "s_first_exposure_month (S k) =
      (if 1 < m then first_exposure_month (panel_at panel (length accounts) (m - 1) i) else - 1)"
  proof (cases "1 < m")
    case True
    then have "k = Suc (k - 1)" by (simp add: k_def)
    then have "s_first_exposure_month (S k) = first_exposure_month (acct_row G accounts cm cfg i (k - 1))"
      using fem [of "k - 1"] by simp
    with True show ?thesis
      using prev_row [OF assms(1,2) True] assms(4,5) by (simp add: k_def)
  next
    case False
    with assms(3) have "k = 0" by (simp add: k_def)
    with False show ?thesis by (simp add: S_def acct_state_init_def)
  qed
  have stable: "s_first_exposure_month (S (Suc (nat (m' - 1)))) = s_first_exposure_month (S (Suc k))"
    if "0 \<le> s_first_exposure_month (S (Suc k))"
  proof -
    from assms(3,4) have "Suc k \<le> Suc (nat (m' - 1))" by (simp add: k_def)
    then show ?thesis using that unfolding S_def by (rule fem_stable)
  qed
  from upd prev stable show ?thesis
    unfolding row_m row_m' fem by simp
qed

text \<open>
  C1, as amended. For every account and every simulated month \<open>m\<close>: if
  \<^verbatim>\<open>invested_status\<close> is 1 in the month-\<open>m\<close> record, then \<^verbatim>\<open>eligible_flag\<close> is 0 in the
  record of every later month of that account, and in the month-\<open>m\<close> record itself
  unless \<^verbatim>\<open>invested_true\<close> is 1 in that record. Eligibility is computed from the status
  carried in from the month before (line 181); the record holds the status after the
  update of line 245.
\<close>

theorem invested_then_ineligible_later:
  assumes "generate_panel G accounts cm cfg = Inr panel"
    and "i < length accounts" and "1 \<le> m" and "m \<le> m'" and "m' \<le> n_months cfg"
    and "invested_status (panel_at panel (length accounts) m i) = 1"
  shows "(m < m' \<longrightarrow> eligible_flag (panel_at panel (length accounts) m' i) = 0)
         \<and> (invested_true (panel_at panel (length accounts) m i) = 0
              \<longrightarrow> eligible_flag (panel_at panel (length accounts) m i) = 0)"
proof -
  have row_m: "panel_at panel (length accounts) m i = acct_row G accounts cm cfg i (nat (m - 1))"
    using assms by (intro panel_at_acct_row) simp_all
  have row_m': "panel_at panel (length accounts) m' i = acct_row G accounts cm cfg i (nat (m' - 1))"
    using assms by (intro panel_at_acct_row) simp_all
  from assms(6) have after: "s_invested_status (acct_state_at G accounts cm cfg i (Suc (nat (m - 1))))"
    by (simp add: row_m row_status(1))
  have later: "eligible_flag (acct_row G accounts cm cfg i (nat (m' - 1))) = 0" if "m < m'"
  proof -
    from that assms(3) have "Suc (nat (m - 1)) \<le> nat (m' - 1)" by simp
    then have "s_invested_status (acct_state_at G accounts cm cfg i (nat (m' - 1)))"
      using after by (rule invested_mono)
    then show ?thesis by (simp add: row_eligible)
  qed
  have same: "eligible_flag (acct_row G accounts cm cfg i (nat (m - 1))) = 0"
    if "invested_true (acct_row G accounts cm cfg i (nat (m - 1))) = 0"
  proof -
    from after that have "s_invested_status (acct_state_at G accounts cm cfg i (nat (m - 1)))"
      by (simp add: row_status(2))
    then show ?thesis by (simp add: row_eligible)
  qed
  from later same show ?thesis by (simp add: row_m row_m')
qed

theorem invested_then_ineligible_later_witness:
  "generate_panel ex_gen ex_accounts ex_maps ex_cfg = Inr ex_panel
   \<and> 0 < length ex_accounts \<and> (1::int) \<le> 2 \<and> (2::int) \<le> 3 \<and> 3 \<le> n_months ex_cfg
   \<and> invested_status (panel_at ex_panel (length ex_accounts) 2 0) = 1
   \<and> eligible_flag (panel_at ex_panel (length ex_accounts) 3 0) = 0
   \<and> invested_status (panel_at ex_panel (length ex_accounts) 3 0) = 1
   \<and> invested_true (panel_at ex_panel (length ex_accounts) 3 0) = 0"
proof -
  have h: "0 < length ex_accounts" "(1::int) \<le> 2" "(2::int) \<le> 3" "3 \<le> n_months ex_cfg"
    "(1::int) \<le> 3" "(3::int) \<le> 3"
    by (simp_all add: ex_length ex_n_months)
  have rows: "invested_status (panel_at ex_panel (length ex_accounts) 2 0) = 1"
    "invested_status (panel_at ex_panel (length ex_accounts) 3 0) = 1"
    "invested_true (panel_at ex_panel (length ex_accounts) 3 0) = 0"
    by (simp_all add: ex_at ex_row_2_def ex_row_3_def)
  from invested_then_ineligible_later [OF ex_generate_panel h(1,2,3,4) rows(1)]
    invested_then_ineligible_later [OF ex_generate_panel h(1,5,6,4) rows(2)]
    h rows ex_generate_panel
  show ?thesis by simp
qed

text \<open>
  The claim as stated fails in the month of the investment itself: for seed 42, one
  account and three months, the record of month 2 has \<^verbatim>\<open>invested_status\<close> 1 and
  \<^verbatim>\<open>eligible_flag\<close> 1.
\<close>

theorem eligible_in_month_of_investment:
  "main ex_gen 42 1 3 = Inr ex_tables
   \<and> generate_panel ex_gen (accounts_csv ex_tables) (snd (build_campaigns (Config 42 1 3)))
         (Config 42 1 3) = Inr (account_month_csv ex_tables)
   \<and> calendar_month (panel_at (account_month_csv ex_tables) (length (accounts_csv ex_tables)) 2 0) = 2
   \<and> invested_status (panel_at (account_month_csv ex_tables) (length (accounts_csv ex_tables)) 2 0) = 1
   \<and> eligible_flag (panel_at (account_month_csv ex_tables) (length (accounts_csv ex_tables)) 2 0) = 1"
  using ex_generate_panel
  by (simp add: ex_main ex_tables_def ex_at ex_row_2_def ex_maps_def ex_cfg_def)

text \<open>
  C2, as amended. For every account count and month count of which one is not positive,
  the program raises an error (a ValueError of numpy or pandas) and writes no table.
  The error is raised inside the generation steps, not by a check before them: with a
  positive account count \<^verbatim>\<open>build_accounts\<close> returns that many account rows, and the
  campaign table of twelve rows is built, before \<^verbatim>\<open>generate_panel\<close> fails.
\<close>

theorem main_fails_inside_generation:
  assumes "accounts_arg \<le> 0 \<or> months_arg \<le> 0"
  shows "main G seed_arg accounts_arg months_arg = Inl ValueError
         \<and> (0 < accounts_arg \<longrightarrow>
              (\<exists>accts g. build_accounts G (default_rng G seed_arg)
                            (Config seed_arg accounts_arg months_arg) = Inr (accts, g)
                         \<and> length accts = nat accounts_arg)
              \<and> length (fst (build_campaigns (Config seed_arg accounts_arg months_arg))) = 12)"
proof -
  let ?cfg = "Config seed_arg accounts_arg months_arg"
  have fields: "n_accounts ?cfg = accounts_arg" "n_months ?cfg = months_arg"
    "rollover_start ?cfg = 1" "rollover_end ?cfg = 12"
    by (simp_all add: Config_def)
  from assms have "run G ?cfg = Inl ValueError"
    by (intro run_fails) (simp add: fields)
  then have fails: "main G seed_arg accounts_arg months_arg = Inl ValueError"
    by (simp add: main_def)
  have built: "\<exists>accts g. build_accounts G (default_rng G seed_arg) ?cfg = Inr (accts, g)
                         \<and> length accts = nat accounts_arg" if "0 < accounts_arg"
  proof -
    from that obtain accts g where
      b: "build_accounts G (default_rng G seed_arg) ?cfg = Inr (accts, g)"
      using build_accounts_total [of ?cfg G "default_rng G seed_arg"] by (auto simp add: fields)
    from build_accounts_Inr(2) [OF b] b show ?thesis by (auto simp add: fields)
  qed
  have "length (fst (build_campaigns ?cfg)) = 12"
    by (simp add: build_campaigns_def Let_def campaign_rows)
  with fails built show ?thesis by blast
qed

theorem main_fails_inside_generation_witness:
  "((1::int) \<le> 0 \<or> (0::int) \<le> 0) \<and> (0::int) < 1
   \<and> main ex_gen 42 1 0 = Inl ValueError
   \<and> (\<exists>accts g. build_accounts ex_gen (default_rng ex_gen 42) (Config 42 1 0) = Inr (accts, g)
                 \<and> length accts = nat 1)
   \<and> length (fst (build_campaigns (Config 42 1 0))) = 12"
proof -
  have h: "(1::int) \<le> 0 \<or> (0::int) \<le> 0" by simp
  from main_fails_inside_generation [OF h, of ex_gen 42] show ?thesis by simp
qed

text \<open>
  With one account and no months the account table and the campaign table exist when
  the error is raised: generation has begun and produced data.
\<close>

theorem accounts_built_before_failure:
  "build_accounts ex_gen (default_rng ex_gen 42) (Config 42 1 0) = Inr (ex_accounts, 12)
   \<and> length (fst (build_campaigns (Config 42 1 0))) = 12
   \<and> main ex_gen 42 1 0 = Inl ValueError"
proof -
  have "build_accounts ex_gen 0 (Config 42 1 0) = Inr (ex_accounts, 12)"
    by (simp add: build_accounts_def np_integers_def sized_def ex_gen_def Config_def
      ex_accounts_def Let_def split_def draws_one age_bands_def tenure_bands_def
      risk_tolerances_def regions_def channels_def)
  moreover have "default_rng ex_gen 42 = 0" by (simp add: ex_gen_def)
  moreover have "length (fst (build_campaigns (Config 42 1 0))) = 12"
    by (simp add: build_campaigns_def Let_def campaign_rows)
  moreover have "main ex_gen 42 1 0 = Inl ValueError"
    unfolding main_def by (rule run_fails) (simp add: Config_def)
  ultimately show ?thesis by simp
qed

text \<open>
  C4. For every account and month \<open>m\<close>: if the account was exposed on some channel in a
  month up to \<open>m\<close>, then \<^verbatim>\<open>first_exposure_month\<close> in the month-\<open>m\<close> record is the first
  such month and \<^verbatim>\<open>event_time\<close> is \<open>m\<close> minus it; if it was never exposed up to month
  \<open>m\<close>, \<^verbatim>\<open>first_exposure_month\<close> is the sentinel -1 and \<^verbatim>\<open>event_time\<close> is missing.
\<close>

theorem event_time_since_first_exposure:
  assumes "generate_panel G accounts cm cfg = Inr panel"
    and "i < length accounts" and "1 \<le> m" and "m \<le> n_months cfg"
  shows "if \<exists>j \<in> {1..m}. exposed (panel_at panel (length accounts) j i)
         then 1 \<le> first_exposure_month (panel_at panel (length accounts) m i)
              \<and> first_exposure_month (panel_at panel (length accounts) m i) \<le> m
              \<and> exposed (panel_at panel (length accounts)
                   (first_exposure_month (panel_at panel (length accounts) m i)) i)
              \<and> (\<forall>j \<in> {1..<first_exposure_month (panel_at panel (length accounts) m i)}.
                    \<not> exposed (panel_at panel (length accounts) j i))
              \<and> event_time (panel_at panel (length accounts) m i) =
                  Some (of_int (m - first_exposure_month (panel_at panel (length accounts) m i)))
         else first_exposure_month (panel_at panel (length accounts) m i) = - 1
              \<and> event_time (panel_at panel (length accounts) m i) = None"
proof -
  let ?fem = "first_exposure_month (panel_at panel (length accounts) m i)"
  have any: "treatment_any (panel_at panel (length accounts) j i) = 1
      \<longleftrightarrow> exposed (panel_at panel (length accounts) j i)"
    and none: "treatment_any (panel_at panel (length accounts) j i) = 0
      \<longleftrightarrow> \<not> exposed (panel_at panel (length accounts) j i)"
    if "1 \<le> j" "j \<le> m" for j
    using panel_exposed [OF assms(1,2) that(1)] that(2) assms(4) by simp_all
  have cond: "(\<exists>j \<in> {1..m}. treatment_any (panel_at panel (length accounts) j i) = 1)
      \<longleftrightarrow> (\<exists>j \<in> {1..m}. exposed (panel_at panel (length accounts) j i))"
    by (intro bex_cong refl any) simp_all
  show ?thesis
  proof (cases "\<exists>j \<in> {1..m}. exposed (panel_at panel (length accounts) j i)")
    case True
    with event_time_by_treatment [OF assms] cond
    have f: "1 \<le> ?fem" "?fem \<le> m"
      "treatment_any (panel_at panel (length accounts) ?fem i) = 1"
      "\<forall>j \<in> {1..<?fem}. treatment_any (panel_at panel (length accounts) j i) = 0"
      "event_time (panel_at panel (length accounts) m i) = Some (of_int (m - ?fem))"
      by simp_all
    from f(1,2,3) have "exposed (panel_at panel (length accounts) ?fem i)"
      by (simp add: any)
    moreover have "\<forall>j \<in> {1..<?fem}. \<not> exposed (panel_at panel (length accounts) j i)"
    proof
      fix j assume j: "j \<in> {1..<?fem}"
      with f(4) have "treatment_any (panel_at panel (length accounts) j i) = 0" by blast
      moreover from j f(2) have "1 \<le> j" "j \<le> m" by simp_all
      ultimately show "\<not> exposed (panel_at panel (length accounts) j i)"
        by (simp add: none)
    qed
    ultimately show ?thesis using True f(1,2,5) by simp
  next
    case False
    with event_time_by_treatment [OF assms] cond show ?thesis by simp
  qed
qed

theorem event_time_since_first_exposure_witness:
  "generate_panel ex_gen ex_accounts ex_maps ex_cfg = Inr ex_panel
   \<and> 0 < length ex_accounts \<and> (1::int) \<le> 3 \<and> 3 \<le> n_months ex_cfg
   \<and> exposed (panel_at ex_panel (length ex_accounts) 2 0)
   \<and> \<not> exposed (panel_at ex_panel (length ex_accounts) 1 0)
   \<and> first_exposure_month (panel_at ex_panel (length ex_accounts) 3 0) = 2
   \<and> event_time (panel_at ex_panel (length ex_accounts) 3 0) = Some (of_int (3 - 2))
   \<and> first_exposure_month (panel_at ex_panel (length ex_accounts) 1 0) = - 1
   \<and> event_time (panel_at ex_panel (length ex_accounts) 1 0) = None"
proof -
  have h: "0 < length ex_accounts" "(1::int) \<le> 3" "3 \<le> n_months ex_cfg" "(1::int) \<le> 1"
    "1 \<le> n_months ex_cfg"
    by (simp_all add: ex_length ex_n_months)
  have seen: "\<exists>j \<in> {1..3}. exposed (panel_at ex_panel (length ex_accounts) j 0)"
    by (rule bexI [of _ 2]) (simp_all add: exposed_def ex_at ex_row_2_def)
  have unseen: "\<not> (\<exists>j \<in> {1..1}. exposed (panel_at ex_panel (length ex_accounts) j 0))"
    by (simp add: exposed_def ex_at ex_row_1_def)
  from event_time_since_first_exposure [OF ex_generate_panel h(1,2,3)] seen
  have late: "event_time (panel_at ex_panel (length ex_accounts) 3 0) =
      Some (of_int (3 - first_exposure_month (panel_at ex_panel (length ex_accounts) 3 0)))"
    by simp
  from event_time_since_first_exposure [OF ex_generate_panel h(1,4,5)] unseen
  have early: "first_exposure_month (panel_at ex_panel (length ex_accounts) 1 0) = - 1
      \<and> event_time (panel_at ex_panel (length ex_accounts) 1 0) = None"
    by simp
  from late early h ex_generate_panel show ?thesis
    by (simp add: exposed_def ex_at ex_row_1_def ex_row_2_def ex_row_3_def)
qed

text \<open>
  C5. For every record of a run, \<^verbatim>\<open>invest_amount\<close> is positive if and only if
  \<^verbatim>\<open>invested_true\<close> is 1; then the amount is the account's \<^verbatim>\<open>baseline_balance\<close> times
  the month's allocation draw, which lies strictly between 0 and 1, and otherwise the
  amount is 0. That numpy's \<^verbatim>\<open>beta(5, 2)\<close> sampler returns values strictly between 0 and
  1 is assumed of the generator; the balance is positive because \<^verbatim>\<open>build_accounts\<close>
  clips it to [1000, 500000].
\<close>

theorem invest_amount_iff_invested_true:
  assumes "run G cfg = Inr t"
    and "\<And>g. 0 < fst (rng_beta G 5 2 g) \<and> fst (rng_beta G 5 2 g) < 1"
    and "i < length (accounts_csv t)" and "1 \<le> m" and "m \<le> n_months cfg"
  shows "(0 < invest_amount (panel_at (account_month_csv t) (length (accounts_csv t)) m i)
            \<longleftrightarrow> invested_true (panel_at (account_month_csv t) (length (accounts_csv t)) m i) = 1)
         \<and> 0 < allocation_rate (panel_draw G cfg (length (accounts_csv t)) m i)
         \<and> allocation_rate (panel_draw G cfg (length (accounts_csv t)) m i) < 1
         \<and> invest_amount (panel_at (account_month_csv t) (length (accounts_csv t)) m i) =
             (if invested_true (panel_at (account_month_csv t) (length (accounts_csv t)) m i) = 1
              then baseline_balance (accounts_csv t ! i)
                   * allocation_rate (panel_draw G cfg (length (accounts_csv t)) m i)
              else 0)"
proof -
  define accts where "accts = accounts_csv t"
  define f where "f = allocation_rate (panel_draw G cfg (length accts) m i)"
  define r where "r = panel_at (account_month_csv t) (length accts) m i"
  from run_Inr(1) [OF assms(1)] obtain g where
    b: "build_accounts G (default_rng G (seed cfg)) cfg = Inr (accts, g)"
    by (auto simp add: accts_def)
  have gen: "generate_panel G accts (snd (build_campaigns cfg)) cfg = Inr (account_month_csv t)"
    using run_Inr(2) [OF assms(1)] by (simp add: accts_def)
  have i: "i < length accts" using assms(3) by (simp add: accts_def)
  from build_accounts_Inr(3) [OF b i] have balance: "0 < baseline_balance (accts ! i)" by simp
  from month_draws_allocation [OF i, where G = G
      and g = "panel_rng G (length accts) (loop_rng G cfg) (nat (m - 1))"]
  obtain g' where
    "f = fst (draws (length accts) (rng_beta G 5 2) g') ! i"
    unfolding f_def panel_draw_def by blast
  then have f: "0 < f \<and> f < 1"
    using draws_all [where P = "\<lambda>x. 0 < x \<and> x < 1" and f = "rng_beta G 5 2", OF assms(2) i]
    by simp
  have km: "int (nat (m - 1)) + 1 = m" using assms(4) by simp
  have row: "r = acct_row G accts (snd (build_campaigns cfg)) cfg i (nat (m - 1))"
    unfolding r_def using gen i assms(4,5) by (rule panel_at_acct_row)
  have amount: "invest_amount r = (if invested_true r = 1 then baseline_balance (accts ! i) * f else 0)"
    unfolding row f_def using row_amount [of G accts "snd (build_campaigns cfg)" cfg i "nat (m - 1)"]
    by (simp only: km)
  from balance f have "0 < baseline_balance (accts ! i) * f" by simp
  with amount f show ?thesis
    unfolding accts_def [symmetric] r_def [symmetric] f_def [symmetric] by simp
qed

theorem invest_amount_iff_invested_true_witness:
  "run ex_gen ex_cfg = Inr ex_tables
   \<and> (\<forall>g. 0 < fst (rng_beta ex_gen 5 2 g) \<and> fst (rng_beta ex_gen 5 2 g) < 1)
   \<and> 0 < length (accounts_csv ex_tables) \<and> (1::int) \<le> 2 \<and> 2 \<le> n_months ex_cfg
   \<and> invested_true (panel_at (account_month_csv ex_tables) (length (accounts_csv ex_tables)) 2 0) = 1
   \<and> 0 < invest_amount (panel_at (account_month_csv ex_tables) (length (accounts_csv ex_tables)) 2 0)
   \<and> invest_amount (panel_at (account_month_csv ex_tables) (length (accounts_csv ex_tables)) 2 0) =
       baseline_balance (accounts_csv ex_tables ! 0)
       * allocation_rate (panel_draw ex_gen ex_cfg (length (accounts_csv ex_tables)) 2 0)"
proof -
  have beta: "0 < fst (rng_beta ex_gen 5 2 g) \<and> fst (rng_beta ex_gen 5 2 g) < 1" for g
    by (simp add: ex_gen_def)
  have h: "0 < length (accounts_csv ex_tables)" "(1::int) \<le> 2" "2 \<le> n_months ex_cfg"
    by (simp_all add: ex_tables_def ex_length ex_n_months)
  have t: "invested_true (panel_at (account_month_csv ex_tables) (length (accounts_csv ex_tables)) 2 0) = 1"
    by (simp add: ex_tables_def ex_at ex_row_2_def)
  from invest_amount_iff_invested_true [OF ex_run beta h] t beta h ex_run
  show ?thesis by simp
qed

text \<open>
  C6. For every account and month, \<^verbatim>\<open>invested_flag\<close> equals \<^verbatim>\<open>invested_true\<close> unless
  the month's label-noise draw is below \<^verbatim>\<open>label_noise_rate\<close>, and then it is the
  negation; \<^verbatim>\<open>invested_status\<close> is the status of the month before or-ed with
  \<^verbatim>\<open>invested_true\<close>, so it is 1 exactly when \<^verbatim>\<open>invested_true\<close> was 1 in some month up
  to this one, whatever the noisy flag shows.
\<close>

theorem label_noise_only_on_flag:
  assumes "generate_panel G accounts cm cfg = Inr panel"
    and "i < length accounts" and "1 \<le> m" and "m \<le> n_months cfg"
  shows "invested_flag (panel_at panel (length accounts) m i) =
           (if u_noise (panel_draw G cfg (length accounts) m i) < label_noise_rate cfg
            then 1 - invested_true (panel_at panel (length accounts) m i)
            else invested_true (panel_at panel (length accounts) m i))
         \<and> invested_status (panel_at panel (length accounts) m i) =
             of_bool ((1 < m \<and> invested_status (panel_at panel (length accounts) (m - 1) i) = 1)
                      \<or> invested_true (panel_at panel (length accounts) m i) = 1)
         \<and> (invested_status (panel_at panel (length accounts) m i) = 1 \<longleftrightarrow>
              (\<exists>j \<in> {1..m}. invested_true (panel_at panel (length accounts) j i) = 1))"
proof -
  define k where "k = nat (m - 1)"
  have km: "int k + 1 = m" using assms(3) by (simp add: k_def)
  have rows: "panel_at panel (length accounts) j i = acct_row G accounts cm cfg i (nat (j - 1))"
    if "1 \<le> j" "j \<le> m" for j
    using assms(1,2) that assms(4) by (intro panel_at_acct_row) simp_all
  have row_m: "panel_at panel (length accounts) m i = acct_row G accounts cm cfg i k"
    using rows [of m] assms(3) by (simp add: k_def)
  have flag: "invested_flag (acct_row G accounts cm cfg i k) =
           (if u_noise (panel_draw G cfg (length accounts) m i) < label_noise_rate cfg
            then 1 - invested_true (acct_row G accounts cm cfg i k)
            else invested_true (acct_row G accounts cm cfg i k))"
    using row_flag [of G accounts cm cfg i k] by (simp only: km)
  have prev: "(1 < m \<and> invested_status (panel_at panel (length accounts) (m - 1) i) = 1)
      \<longleftrightarrow> s_invested_status (acct_state_at G accounts cm cfg i k)"
  proof (cases "1 < m")
    case True
    then have "k = Suc (k - 1)" by (simp add: k_def)
    then have "s_invested_status (acct_state_at G accounts cm cfg i k) \<longleftrightarrow>
        invested_status (acct_row G accounts cm cfg i (k - 1)) = 1"
      using row_status(1) [of G accounts cm cfg i "k - 1"] by simp
    with True show ?thesis
      using prev_row [OF assms(1,2) True assms(4)] by (simp add: k_def)
  next
    case False
    with assms(3) have "k = 0" by (simp add: k_def)
    with False show ?thesis by (simp add: acct_state_init_def)
  qed
  have step: "invested_status (acct_row G accounts cm cfg i k) =
      of_bool (s_invested_status (acct_state_at G accounts cm cfg i k)
               \<or> invested_true (acct_row G accounts cm cfg i k) = 1)"
    by (simp only: row_status)
  have closed_form: "invested_status (acct_row G accounts cm cfg i k) = 1 \<longleftrightarrow>
      (\<exists>j \<in> {1..m}. invested_true (panel_at panel (length accounts) j i) = 1)"
  proof -
    have "invested_status (acct_row G accounts cm cfg i k) = 1 \<longleftrightarrow>
        (\<exists>j<Suc k. invested_true (acct_row G accounts cm cfg i j) = 1)"
      by (simp only: row_status(1) of_bool_eq_1_iff invested_iff)
    also have "\<dots> \<longleftrightarrow> (\<exists>j \<in> {1..m}. invested_true (panel_at panel (length accounts) j i) = 1)"
    proof
      assume "\<exists>j<Suc k. invested_true (acct_row G accounts cm cfg i j) = 1"
      then obtain j where j: "j < Suc k" "invested_true (acct_row G accounts cm cfg i j) = 1"
        by blast
      then have "1 \<le> int j + 1" "int j + 1 \<le> m" using km by simp_all
      moreover from this j(2) have "invested_true (panel_at panel (length accounts) (int j + 1) i) = 1"
        by (simp add: rows)
      ultimately show "\<exists>j \<in> {1..m}. invested_true (panel_at panel (length accounts) j i) = 1"
        by auto
    next
      assume "\<exists>j \<in> {1..m}. invested_true (panel_at panel (length accounts) j i) = 1"
      then obtain j where j: "1 \<le> j" "j \<le> m"
        "invested_true (acct_row G accounts cm cfg i (nat (j - 1))) = 1"
        by (auto simp add: rows)
      then have "nat (j - 1) < Suc k" by (simp add: k_def)
      with j(3) show "\<exists>j<Suc k. invested_true (acct_row G accounts cm cfg i j) = 1" by blast
    qed
    finally show ?thesis .
  qed
  from flag step closed_form show ?thesis
    unfolding row_m prev by simp
qed

theorem label_noise_only_on_flag_witness:
  "generate_panel ex_gen ex_accounts ex_maps ex_cfg = Inr ex_panel
   \<and> 0 < length ex_accounts \<and> (1::int) \<le> 3 \<and> 3 \<le> n_months ex_cfg
   \<and> u_noise (panel_draw ex_gen ex_cfg (length ex_accounts) 3 0) < label_noise_rate ex_cfg
   \<and> invested_true (panel_at ex_panel (length ex_accounts) 3 0) = 0
   \<and> invested_flag (panel_at ex_panel (length ex_accounts) 3 0) = 1
   \<and> invested_status (panel_at ex_panel (length ex_accounts) (3 - 1) 0) = 1
   \<and> invested_status (panel_at ex_panel (length ex_accounts) 3 0) = 1"
proof -
  have h: "0 < length ex_accounts" "(1::int) \<le> 3" "3 \<le> n_months ex_cfg"
    by (simp_all add: ex_length ex_n_months)
  have noise: "u_noise (panel_draw ex_gen ex_cfg (length ex_accounts) 3 0) < label_noise_rate ex_cfg"
    by (simp add: ex_length ex_draw_3) (simp add: ex_cfg_def Config_def)
  have rows: "invested_true (panel_at ex_panel (length ex_accounts) 3 0) = 0"
    "invested_status (panel_at ex_panel (length ex_accounts) (3 - 1) 0) = 1"
    by (simp_all add: ex_at ex_row_3_def ex_row_2_def)
  from label_noise_only_on_flag [OF ex_generate_panel h] noise rows h ex_generate_panel
  show ?thesis by simp
qed

text \<open>
  C8. For every account, \<^verbatim>\<open>first_exposure_month\<close> changes at most once: in month \<open>m\<close>
  it becomes \<open>m\<close> exactly when it was unset after the month before and some channel
  exposure occurred in month \<open>m\<close>, otherwise it keeps its value; and once it is set, every
  later month's record shows the same value.
\<close>

theorem first_exposure_month_set_once:
  assumes "generate_panel G accounts cm cfg = Inr panel"
    and "i < length accounts" and "1 \<le> m" and "m \<le> m'" and "m' \<le> n_months cfg"
  shows "first_exposure_month (panel_at panel (length accounts) m i) =
           (if exposed (panel_at panel (length accounts) m i)
               \<and> (1 < m \<longrightarrow> first_exposure_month (panel_at panel (length accounts) (m - 1) i) < 0)
            then m
            else if 1 < m then first_exposure_month (panel_at panel (length accounts) (m - 1) i)
            else - 1)
         \<and> (0 \<le> first_exposure_month (panel_at panel (length accounts) m i) \<longrightarrow>
              first_exposure_month (panel_at panel (length accounts) m' i) =
              first_exposure_month (panel_at panel (length accounts) m i))"
proof -
  from assms(4,5) have "m \<le> n_months cfg" by simp
  from panel_exposed(1) [OF assms(1,2,3) this] first_exposure_by_treatment [OF assms]
  show ?thesis by simp
qed

theorem first_exposure_month_set_once_witness:
  "generate_panel ex_gen ex_accounts ex_maps ex_cfg = Inr ex_panel
   \<and> 0 < length ex_accounts \<and> (1::int) \<le> 2 \<and> (2::int) \<le> 3 \<and> 3 \<le> n_months ex_cfg
   \<and> exposed (panel_at ex_panel (length ex_accounts) 2 0)
   \<and> first_exposure_month (panel_at ex_panel (length ex_accounts) (2 - 1) 0) < 0
   \<and> first_exposure_month (panel_at ex_panel (length ex_accounts) 2 0) = 2
   \<and> first_exposure_month (panel_at ex_panel (length ex_accounts) 3 0) = 2"
proof -
  have h: "0 < length ex_accounts" "(1::int) \<le> 2" "(2::int) \<le> 3" "3 \<le> n_months ex_cfg"
    by (simp_all add: ex_length ex_n_months)
  have rows: "exposed (panel_at ex_panel (length ex_accounts) 2 0)"
    "first_exposure_month (panel_at ex_panel (length ex_accounts) (2 - 1) 0) < 0"
    by (simp_all add: exposed_def ex_at ex_row_1_def ex_row_2_def)
  from first_exposure_month_set_once [OF ex_generate_panel h] rows h ex_generate_panel
  show ?thesis by simp
qed

text \<open>
  C9. For every record, exposure on any channel implies that \<^verbatim>\<open>eligible_flag\<close> is 1 in
  the same record; hence the account is active and was neither invested nor closed at
  the end of the month before.
\<close>

theorem exposure_implies_eligible:
  assumes "generate_panel G accounts cm cfg = Inr panel"
    and "i < length accounts" and "1 \<le> m" and "m \<le> n_months cfg"
    and "exposure_email (panel_at panel (length accounts) m i) = 1
         \<or> exposure_sms (panel_at panel (length accounts) m i) = 1
         \<or> exposure_inapp (panel_at panel (length accounts) m i) = 1"
  shows "eligible_flag (panel_at panel (length accounts) m i) = 1
         \<and> active_flag (panel_at panel (length accounts) m i) = 1
         \<and> (1 < m \<longrightarrow> invested_status (panel_at panel (length accounts) (m - 1) i) = 0
                        \<and> account_closed (panel_at panel (length accounts) (m - 1) i) = 0)"
proof -
  define k where "k = nat (m - 1)"
  have km: "int k + 1 = m" using assms(3) by (simp add: k_def)
  have row_m: "panel_at panel (length accounts) m i = acct_row G accounts cm cfg i k"
    unfolding k_def using assms by (intro panel_at_acct_row) simp_all
  from assms(5) have elig: "eligible_flag (acct_row G accounts cm cfg i k) = 1"
    unfolding row_m by (rule row_exposure)
  then have cond: "1 \<le> m - rollover_month (accounts ! i)"
    "\<not> s_invested_status (acct_state_at G accounts cm cfg i k)"
    "\<not> s_account_closed (acct_state_at G accounts cm cfg i k)"
    by (simp_all add: row_eligible km)
  have active: "active_flag (acct_row G accounts cm cfg i k) = 1"
    using cond(1) by (simp add: acct_row_def panel_step_def step_active_closed(1) km)
  have before: "invested_status (panel_at panel (length accounts) (m - 1) i) = 0
      \<and> account_closed (panel_at panel (length accounts) (m - 1) i) = 0" if "1 < m"
  proof -
    from that have "k = Suc (k - 1)" by (simp add: k_def)
    then have "invested_status (acct_row G accounts cm cfg i (k - 1)) =
          of_bool (s_invested_status (acct_state_at G accounts cm cfg i k))"
      and "account_closed (acct_row G accounts cm cfg i (k - 1)) =
          of_bool (s_account_closed (acct_state_at G accounts cm cfg i k))"
      using row_status(1) [of G accounts cm cfg i "k - 1"] row_closed(1) [of G accounts cm cfg i "k - 1"]
      by simp_all
    with cond show ?thesis
      using prev_row [OF assms(1,2) that assms(4)] by (simp add: k_def)
  qed
  from elig active before show ?thesis by (simp add: row_m)
qed

theorem exposure_implies_eligible_witness:
  "generate_panel ex_gen ex_accounts ex_maps ex_cfg = Inr ex_panel
   \<and> 0 < length ex_accounts \<and> (1::int) \<le> 2 \<and> 2 \<le> n_months ex_cfg
   \<and> exposure_email (panel_at ex_panel (length ex_accounts) 2 0) = 1
   \<and> eligible_flag (panel_at ex_panel (length ex_accounts) 2 0) = 1
   \<and> active_flag (panel_at ex_panel (length ex_accounts) 2 0) = 1
   \<and> invested_status (panel_at ex_panel (length ex_accounts) (2 - 1) 0) = 0
   \<and> account_closed (panel_at ex_panel (length ex_accounts) (2 - 1) 0) = 0"
proof -
  have h: "0 < length ex_accounts" "(1::int) \<le> 2" "2 \<le> n_months ex_cfg"
    by (simp_all add: ex_length ex_n_months)
  have x: "exposure_email (panel_at ex_panel (length ex_accounts) 2 0) = 1"
    by (simp add: ex_at ex_row_2_def)
  then have "exposure_email (panel_at ex_panel (length ex_accounts) 2 0) = 1
      \<or> exposure_sms (panel_at ex_panel (length ex_accounts) 2 0) = 1
      \<or> exposure_inapp (panel_at ex_panel (length ex_accounts) 2 0) = 1"
    by simp
  from exposure_implies_eligible [OF ex_generate_panel h this] x h ex_generate_panel
  show ?thesis by simp
qed

text \<open>
  C10. For every record of the panel, \<^verbatim>\<open>post\<close> equals \<^verbatim>\<open>treated\<close>:
  \<^verbatim>\<open>first_exposure_month\<close> is never later than the record's \<^verbatim>\<open>calendar_month\<close>, so the
  condition \<^verbatim>\<open>m >= first_exposure_month\<close> of line 260 adds nothing.
\<close>

theorem post_equals_treated:
  assumes "generate_panel G accounts cm cfg = Inr panel" and "r \<in> set panel"
  shows "post r = treated r \<and> first_exposure_month r \<le> calendar_month r"
proof -
  from panel_row_cases [OF assms] obtain m i where
    m: "1 \<le> m" "m \<le> n_months cfg" and i: "i < length accounts"
    and r: "r = panel_at panel (length accounts) m i"
    by blast
  define k where "k = nat (m - 1)"
  have row: "r = acct_row G accounts cm cfg i k"
    unfolding r k_def using assms(1) i m by (rule panel_at_acct_row)
  have "first_exposure_month (acct_row G accounts cm cfg i k) \<le> int (Suc k)"
    using fem_range [of G accounts cm cfg i "Suc k"] by (auto simp add: row_fem(1))
  then have "first_exposure_month r \<le> calendar_month r"
    by (simp add: row row_calendar)
  then show ?thesis
    by (simp add: row row_derived row_calendar)
qed

theorem post_equals_treated_witness:
  "generate_panel ex_gen ex_accounts ex_maps ex_cfg = Inr ex_panel
   \<and> ex_row_3 \<in> set ex_panel
   \<and> treated ex_row_3 = 1
   \<and> post ex_row_3 = treated ex_row_3
   \<and> first_exposure_month ex_row_3 \<le> calendar_month ex_row_3"
proof -
  have h: "ex_row_3 \<in> set ex_panel" by (simp add: ex_panel_rows)
  have t: "treated ex_row_3 = 1" by (simp add: ex_row_3_def)
  from post_equals_treated [OF ex_generate_panel h] t h ex_generate_panel
  show ?thesis by simp
qed

end
